theory Spec2Isabelle
  imports Complex_Main
begin

section \<open>Values and strings\<close>

text \<open>
  The pipeline passes Python dictionaries decoded from JSON between its stages. A value is
  modelled by the datatype below; a dictionary is an association list in insertion order,
  read by \<open>map_of\<close>. A Python \<open>str\<close> is modelled by the list of the bytes of its UTF-8
  encoding, so the rupee sign of the sample input is three bytes. Numbers are exact
  rationals: floating-point rounding is not modelled.
\<close>

datatype pyval =
    PNone
  | PBool bool
  | PNum rat
  | PStr string
  | PList "pyval list"
  | PDict "(string \<times> pyval) list"

datatype py_error =
    AttributeError
  | TypeError
  | IndexError
  | JSONDecodeError
  | ValidationError
  | BackendError
  | ValueError string

text \<open>Truth value of a Python object, as \<open>if x\<close> and \<open>not x\<close> test it.\<close>

fun truthy :: "pyval \<Rightarrow> bool" where
  "truthy PNone = False"
| "truthy (PBool b) = b"
| "truthy (PNum n) = (n \<noteq> 0)"
| "truthy (PStr s) = (s \<noteq> [])"
| "truthy (PList xs) = (xs \<noteq> [])"
| "truthy (PDict kvs) = (kvs \<noteq> [])"

text \<open>\<open>d.get(k, default)\<close>; calling \<open>get\<close> on anything but a dictionary raises.\<close>

fun py_get :: "pyval \<Rightarrow> string \<Rightarrow> pyval \<Rightarrow> py_error + pyval" where
  "py_get (PDict kvs) k dflt = Inr (case map_of kvs k of None \<Rightarrow> dflt | Some v \<Rightarrow> v)"
| "py_get _ k dflt = Inl AttributeError"

text \<open>The same lookup on a value already known to be a dictionary.\<close>

definition dict_get :: "(string \<times> pyval) list \<Rightarrow> string \<Rightarrow> pyval \<Rightarrow> pyval" where
  "dict_get kvs k dflt = (case map_of kvs k of None \<Rightarrow> dflt | Some v \<Rightarrow> v)"

text \<open>
  \<open>str.lower()\<close> on the ASCII letters; bytes outside ASCII are left as they are (the
  case mapping of non-ASCII letters is not modelled).
\<close>

definition lower_char :: "char \<Rightarrow> char" where
  "lower_char c =
     (let n = (of_char c :: nat) in if 65 \<le> n \<and> n \<le> 90 then char_of (n + 32) else c)"

definition lower :: "string \<Rightarrow> string" where
  "lower s = map lower_char s"

text \<open>\<open>w in s\<close> for two strings: \<open>w\<close> occurs in \<open>s\<close> as a contiguous block.\<close>

fun starts_with :: "string \<Rightarrow> string \<Rightarrow> bool" where
  "starts_with [] s = True"
| "starts_with (w # ws) [] = False"
| "starts_with (w # ws) (c # cs) = (w = c \<and> starts_with ws cs)"

fun contains :: "string \<Rightarrow> string \<Rightarrow> bool" where
  "contains w [] = (w = [])"
| "contains w (c # cs) = (starts_with w (c # cs) \<or> contains w cs)"

section \<open>Currency delta (templates/template\_engine.py)\<close>

text \<open>
  \<open>re.findall(r'\d+', s)[0]\<close>: the first maximal run of decimal digits of \<open>s\<close>;
  indexing the empty result raises \<open>IndexError\<close>. Only the ASCII digits are modelled.
\<close>

definition is_digit :: "char \<Rightarrow> bool" where
  "is_digit c = (let n = (of_char c :: nat) in 48 \<le> n \<and> n \<le> 57)"

definition first_digit_run :: "string \<Rightarrow> py_error + string" where
  "first_digit_run s =
     (let r = takeWhile is_digit (dropWhile (\<lambda>c. \<not> is_digit c) s)
      in if r = [] then Inl IndexError else Inr r)"

text \<open>\<open>s.replace(',', '')\<close>.\<close>

definition remove_commas :: "string \<Rightarrow> string" where
  "remove_commas s = filter (\<lambda>c. c \<noteq> CHR '','') s"

text \<open>
  \<open>float(r)\<close> for a run of digits, as a natural number. The value is exact in the code
  as long as it is below \<open>2 ^ 53\<close>; the theorems below are stated for such runs.
\<close>

definition digit_val :: "char \<Rightarrow> nat" where
  "digit_val c = of_char c - 48"

definition number_of_digits :: "string \<Rightarrow> nat" where
  "number_of_digits r = foldl (\<lambda>a c. 10 * a + digit_val c) 0 r"

text \<open>\<open>f"{d:.0f}"\<close> for a non-negative whole number \<open>d\<close>: its decimal digits.\<close>

fun show_nat :: "nat \<Rightarrow> string" where
  "show_nat n =
     (if n < 10 then [char_of (48 + n)]
      else show_nat (n div 10) @ [char_of (48 + n mod 10)])"

declare show_nat.simps [simp del]

text \<open>
  The prefix written in the f-string of the source file: the seven bytes
  \<open>C3 A2 E2 80 9A C2 B9\<close>.
\<close>

definition price_prefix :: string where
  "price_prefix = [CHR 0xC3, CHR 0xA2, CHR 0xE2,
     CHR 0x80, CHR 0x9A, CHR 0xC2, CHR 0xB9]"

text \<open>The rupee sign U+20B9 of the sample prices, in UTF-8.\<close>

definition rupee :: string where
  "rupee = [CHR 0xE2, CHR 0x82, CHR 0xB9]"

text \<open>
  \<open>_calculate_price_difference(price1, price2)\<close>. The bare \<open>except\<close> turns every failure
  (an argument that is not a string, a string without digits) into the empty string.
\<close>

fun calculate_price_difference :: "pyval \<Rightarrow> pyval \<Rightarrow> string" where
  "calculate_price_difference (PStr price1) (PStr price2) =
     (case first_digit_run (remove_commas price1) of
        Inl e \<Rightarrow> []
      | Inr r1 \<Rightarrow>
          (case first_digit_run (remove_commas price2) of
             Inl e \<Rightarrow> []
           | Inr r2 \<Rightarrow>
               (let num1 = number_of_digits r1; num2 = number_of_digits r2;
                    diff = (if num1 \<le> num2 then num2 - num1 else num1 - num2)
                in price_prefix @ show_nat diff)))"
| "calculate_price_difference _ _ = []"

declare calculate_price_difference.simps [simp del]




section \<open>Sets of Python values\<close>

text \<open>
  Lists and dictionaries are unhashable: putting one into a \<open>set\<close> raises \<open>TypeError\<close>.
\<close>

fun hashable :: "pyval \<Rightarrow> bool" where
  "hashable (PList xs) = False"
| "hashable (PDict kvs) = False"
| "hashable v = True"

text \<open>
  The elements \<open>set(x)\<close> and \<open>len(x)\<close> run over: the entries of a list, the characters
  of a string (here: its bytes, which is exact for ASCII text), the keys of a dictionary.
  Anything else is not iterable.
\<close>

fun py_iter :: "pyval \<Rightarrow> py_error + pyval list" where
  "py_iter (PList xs) = Inr xs"
| "py_iter (PStr s) = Inr (map (\<lambda>c. PStr [c]) s)"
| "py_iter (PDict kvs) = Inr (remdups (map (\<lambda>kv. PStr (fst kv)) kvs))"
| "py_iter v = Inl TypeError"

text \<open>
  \<open>list(set(a) & set(b))\<close> and \<open>list(set(a) - set(b))\<close>. Python leaves the order of the
  resulting list unspecified; the model lists the elements without repetition in the
  order \<open>remdups\<close> gives, and the theorems speak of the set of elements and of the length
  only. Elements are compared by equality of values (Python's identification of \<open>True\<close>
  with \<open>1\<close> is not modelled).
\<close>

definition set_inter :: "'a list \<Rightarrow> 'a list \<Rightarrow> 'a list" where
  "set_inter a b = filter (\<lambda>x. x \<in> set b) (remdups a)"

definition set_minus :: "'a list \<Rightarrow> 'a list \<Rightarrow> 'a list" where
  "set_minus a b = filter (\<lambda>x. x \<notin> set b) (remdups a)"

definition py_set_op ::
  "(pyval list \<Rightarrow> pyval list \<Rightarrow> pyval list) \<Rightarrow> pyval \<Rightarrow> pyval \<Rightarrow> py_error + pyval" where
  "py_set_op f a b =
     (case py_iter a of
        Inl e \<Rightarrow> Inl e
      | Inr xs \<Rightarrow>
          if \<not> list_all hashable xs then Inl TypeError
          else (case py_iter b of
                  Inl e \<Rightarrow> Inl e
                | Inr ys \<Rightarrow>
                    if \<not> list_all hashable ys then Inl TypeError
                    else Inr (PList (f xs ys))))"

section \<open>Ingredient comparison (content\_blocks/ingredients\_block.py)\<close>

record 'a ingredients_comparison =
  common_ingredients :: "'a list"
  unique_to_product1 :: "'a list"
  unique_to_product2 :: "'a list"
  similarity_score :: rat

text \<open>
  \<open>compare_ingredients(product1_ingredients, product2_ingredients)\<close> on two lists. The
  score divides by the lengths of the lists as given and is scaled by 100.
\<close>

definition compare_ingredients :: "'a list \<Rightarrow> 'a list \<Rightarrow> 'a ingredients_comparison" where
  "compare_ingredients product1_ingredients product2_ingredients =
     (let common = set_inter product1_ingredients product2_ingredients;
          unique_to_1 = set_minus product1_ingredients product2_ingredients;
          unique_to_2 = set_minus product2_ingredients product1_ingredients
      in \<lparr> common_ingredients = common,
           unique_to_product1 = unique_to_1,
           unique_to_product2 = unique_to_2,
           similarity_score =
             of_nat (length common)
               / of_nat (max (max (length product1_ingredients) (length product2_ingredients)) 1)
               * 100 \<rparr>)"


text \<open>
  The same function on the values the comparison stage passes in, returning the
  dictionary of the source.
\<close>

definition compare_ingredients_py :: "pyval \<Rightarrow> pyval \<Rightarrow> py_error + pyval" where
  "compare_ingredients_py p1 p2 =
     (case py_iter p1 of
        Inl e \<Rightarrow> Inl e
      | Inr xs \<Rightarrow>
          if \<not> list_all hashable xs then Inl TypeError
          else (case py_iter p2 of
                  Inl e \<Rightarrow> Inl e
                | Inr ys \<Rightarrow>
                    if \<not> list_all hashable ys then Inl TypeError
                    else (let r = compare_ingredients xs ys
                          in Inr (PDict
                               [(''common_ingredients'', PList (common_ingredients r)),
                                (''unique_to_product1'', PList (unique_to_product1 r)),
                                (''unique_to_product2'', PList (unique_to_product2 r)),
                                (''similarity_score'', PNum (similarity_score r))]))))"

section \<open>Category inference (tools/product\_tools.py, templates/template\_engine.py)\<close>

text \<open>\<open>any(word in text for word in words)\<close>.\<close>

definition any_word_in :: "string list \<Rightarrow> string \<Rightarrow> bool" where
  "any_word_in words text = list_ex (\<lambda>word. contains word text) words"

text \<open>The keyword lists of \<open>categorize_question\<close>, in the order of its tests.\<close>

definition tool_safety_words :: "string list" where
  "tool_safety_words = [''side effect'', ''safe'', ''irritat'', ''sensitive'', ''warning'', ''risk'']"

definition tool_usage_words :: "string list" where
  "tool_usage_words = [''how to use'', ''apply'', ''frequency'', ''when'', ''how often'', ''steps'']"

definition tool_purchase_words :: "string list" where
  "tool_purchase_words = [''price'', ''cost'', ''buy'', ''purchase'', ''where to buy'', ''available'']"

definition tool_comparison_words :: "string list" where
  "tool_comparison_words =
     [''compare'', ''vs'', ''versus'', ''better than'', ''difference'', ''alternative'']"

definition categorize_question :: "string \<Rightarrow> pyval \<Rightarrow> string" where
  "categorize_question question_text product_data =
     (let question_lower = lower question_text in
      if any_word_in tool_safety_words question_lower then ''Safety''
      else if any_word_in tool_usage_words question_lower then ''Usage''
      else if any_word_in tool_purchase_words question_lower then ''Purchase''
      else if any_word_in tool_comparison_words question_lower then ''Comparison''
      else ''Informational'')"

text \<open>
  The cascade written inline in \<open>FAQTemplate.apply\<close> for an item without a category, with
  its own keyword lists; its argument is the question text before lowering.
\<close>

definition faq_safety_words :: "string list" where
  "faq_safety_words = [''safe'', ''side effect'', ''irritat'']"

definition faq_usage_words :: "string list" where
  "faq_usage_words = [''how to'', ''use'', ''apply'']"

definition faq_purchase_words :: "string list" where
  "faq_purchase_words = [''price'', ''cost'', ''buy'']"

definition faq_comparison_words :: "string list" where
  "faq_comparison_words = [''compare'', ''vs'', ''versus'']"

definition faq_infer_category :: "string \<Rightarrow> string" where
  "faq_infer_category question =
     (let question_text = lower question in
      if any_word_in faq_safety_words question_text then ''Safety''
      else if any_word_in faq_usage_words question_text then ''Usage''
      else if any_word_in faq_purchase_words question_text then ''Purchase''
      else if any_word_in faq_comparison_words question_text then ''Comparison''
      else ''Informational'')"

text \<open>
  A question mentions one of the words when, lowered, it holds the word as a contiguous
  block. This is the reading of \<open>any(word in text ...)\<close> the theorems are stated with.
\<close>

definition mentions :: "string list \<Rightarrow> string \<Rightarrow> bool" where
  "mentions words question =
     (\<exists>w \<in> set words. \<exists>pre post. lower question = pre @ w @ post)"

section \<open>Templates (templates/template\_engine.py)\<close>

text \<open>A loop that builds a list and stops at the first item that raises.\<close>

fun collect :: "('a \<Rightarrow> py_error + 'b) \<Rightarrow> 'a list \<Rightarrow> py_error + 'b list" where
  "collect f [] = Inr []"
| "collect f (x # xs) =
     (case f x of
        Inl e \<Rightarrow> Inl e
      | Inr y \<Rightarrow> (case collect f xs of Inl e \<Rightarrow> Inl e | Inr ys \<Rightarrow> Inr (y # ys)))"

text \<open>\<open>x[:n]\<close>, iterated over: a list or a string can be sliced, nothing else.\<close>

fun py_slice_to :: "nat \<Rightarrow> pyval \<Rightarrow> py_error + pyval list" where
  "py_slice_to n (PList xs) = Inr (take n xs)"
| "py_slice_to n (PStr s) = Inr (map (\<lambda>c. PStr [c]) (take n s))"
| "py_slice_to n v = Inl TypeError"

fun as_dict :: "pyval \<Rightarrow> (string \<times> pyval) list option" where
  "as_dict (PDict kvs) = Some kvs"
| "as_dict v = None"

text \<open>
  One round of the loop of \<open>FAQTemplate.apply\<close>: the entry built for the question
  \<open>qa\<close>. A category that is missing, \<open>None\<close> or otherwise false is inferred from the
  question text; any other category is kept as it is.
\<close>

fun faq_item :: "pyval \<Rightarrow> py_error + pyval" where
  "faq_item (PDict qa) =
     (let category = dict_get qa ''category'' PNone in
      if \<not> truthy category then
        (case dict_get qa ''question'' (PStr []) of
           PStr question \<Rightarrow>
             Inr (PDict [(''question'', dict_get qa ''question'' (PStr [])),
                         (''answer'', dict_get qa ''answer'' (PStr [])),
                         (''category'', PStr (faq_infer_category question))])
         | _ \<Rightarrow> Inl AttributeError)
      else
        Inr (PDict [(''question'', dict_get qa ''question'' (PStr [])),
                    (''answer'', dict_get qa ''answer'' (PStr [])),
                    (''category'', category)]))"
| "faq_item v = Inl AttributeError"

definition item_category :: "pyval \<Rightarrow> pyval" where
  "item_category item = (case item of PDict kvs \<Rightarrow> dict_get kvs ''category'' PNone | _ \<Rightarrow> PNone)"

definition FAQTemplate_get_fields :: "string list" where
  "FAQTemplate_get_fields = [''questions'', ''product_data'']"

definition FAQTemplate_apply ::
  "(string \<times> pyval) list \<Rightarrow> (string \<times> pyval) list \<Rightarrow> py_error + pyval" where
  "FAQTemplate_apply data content_blocks =
     (let questions = dict_get data ''questions'' (PList []);
          product_data = dict_get data ''product_data'' (PDict [])
      in case py_slice_to 5 questions of
           Inl e \<Rightarrow> Inl e
         | Inr qs \<Rightarrow>
             (case collect faq_item qs of
                Inl e \<Rightarrow> Inl e
              | Inr faq_items \<Rightarrow>
                  (case py_get product_data ''product_name'' (PStr []) of
                     Inl e \<Rightarrow> Inl e
                   | Inr product_name \<Rightarrow>
                       if \<not> list_all hashable (map item_category faq_items) then Inl TypeError
                       else Inr (PDict
                         [(''page_type'', PStr ''faq''),
                          (''product_name'', product_name),
                          (''faq_items'', PList faq_items),
                          (''total_questions'', PNum (of_nat (length faq_items))),
                          (''categories'', PList (remdups (map item_category faq_items)))]))))"

definition ProductDescriptionTemplate_get_fields :: "string list" where
  "ProductDescriptionTemplate_get_fields =
     [''product_data'', ''benefits_content'', ''usage_content'', ''ingredients_content'',
      ''safety_content'']"

text \<open>
  The f-string of the overview formats two values with \<open>str()\<close>. A string is inserted as
  it is; how Python prints any other value is a parameter \<open>str_of\<close> of the model.
\<close>

definition py_format :: "(pyval \<Rightarrow> string) \<Rightarrow> pyval \<Rightarrow> string" where
  "py_format str_of v = (case v of PStr s \<Rightarrow> s | _ \<Rightarrow> str_of v)"

definition ProductDescriptionTemplate_apply ::
  "(pyval \<Rightarrow> string) \<Rightarrow> (string \<times> pyval) list \<Rightarrow> (string \<times> pyval) list
     \<Rightarrow> py_error + pyval" where
  "ProductDescriptionTemplate_apply str_of data content_blocks =
     (case (as_dict (dict_get data ''product_data'' (PDict [])),
            as_dict (dict_get content_blocks ''benefits'' (PDict [])),
            as_dict (dict_get content_blocks ''usage'' (PDict [])),
            as_dict (dict_get content_blocks ''ingredients'' (PDict [])),
            as_dict (dict_get content_blocks ''safety'' (PDict []))) of
        (Some product_data, Some benefits, Some usage, Some ingredients, Some safety) \<Rightarrow>
          Inr (PDict
            [(''page_type'', PStr ''product_description''),
             (''product_name'', dict_get product_data ''product_name'' (PStr [])),
             (''price'', dict_get product_data ''price'' (PStr [])),
             (''concentration'', dict_get product_data ''concentration'' (PStr [])),
             (''sections'', PDict
               [(''overview'', PDict
                  [(''description'', PStr
                      (py_format str_of (dict_get product_data ''product_name'' (PStr []))
                         @ '' - ''
                         @ py_format str_of (dict_get product_data ''concentration'' (PStr [])))),
                   (''key_highlights'', dict_get product_data ''benefits'' (PList []))]),
                (''ingredients'', PDict
                  [(''key_ingredients'', dict_get ingredients ''key_ingredients'' (PList [])),
                   (''ingredient_details'', dict_get ingredients ''ingredient_details'' (PDict [])),
                   (''concentration'', dict_get ingredients ''concentration'' (PStr []))]),
                (''benefits'', PDict
                  [(''primary_benefits'', dict_get benefits ''primary_benefits'' (PList [])),
                   (''formatted_benefits'', dict_get benefits ''formatted_benefits'' (PList []))]),
                (''usage'', PDict
                  [(''instructions'', dict_get usage ''instructions'' (PStr [])),
                   (''steps'', dict_get usage ''steps'' (PList [])),
                   (''frequency'', dict_get usage ''frequency'' (PStr [])),
                   (''tips'', dict_get usage ''application_tips'' (PList []))]),
                (''safety'', PDict
                  [(''side_effects'', dict_get safety ''side_effects'' (PStr [])),
                   (''warnings'', dict_get safety ''warnings'' (PList [])),
                   (''precautions'', dict_get safety ''safety_notes'' (PList []))]),
                (''skin_type'', PDict
                  [(''suitable_for'', dict_get product_data ''skin_type'' (PList []))])])])
      | _ \<Rightarrow> Inl AttributeError)"

text \<open>
  \<open>_generate_recommendation\<close>: the score is compared with 70; comparing anything but a
  number (or a truth value, which counts as 0 or 1) with a number raises \<open>TypeError\<close>.
\<close>

definition generate_recommendation ::
  "(string \<times> pyval) list \<Rightarrow> (string \<times> pyval) list \<Rightarrow> (string \<times> pyval) list
     \<Rightarrow> py_error + string" where
  "generate_recommendation product1 product2 comparison =
     (case dict_get comparison ''similarity_score'' (PNum 0) of
        PNum similarity \<Rightarrow>
          Inr (if similarity > 70
               then ''Both products are similar. Choose based on price and specific needs.''
               else ''Products differ significantly. Consider your specific skin concerns and budget.'')
      | PBool b \<Rightarrow>
          Inr ''Products differ significantly. Consider your specific skin concerns and budget.''
      | _ \<Rightarrow> Inl TypeError)"

definition ComparisonTemplate_get_fields :: "string list" where
  "ComparisonTemplate_get_fields = [''product1_data'', ''product2_data'']"

definition ComparisonTemplate_apply ::
  "(string \<times> pyval) list \<Rightarrow> (string \<times> pyval) list \<Rightarrow> py_error + pyval" where
  "ComparisonTemplate_apply data content_blocks =
     (case (as_dict (dict_get data ''product1_data'' (PDict [])),
            as_dict (dict_get data ''product2_data'' (PDict [])),
            as_dict (dict_get content_blocks ''ingredients_comparison'' (PDict []))) of
        (Some product1, Some product2, Some comparison) \<Rightarrow>
          (case py_set_op set_inter (dict_get product1 ''benefits'' (PList []))
                  (dict_get product2 ''benefits'' (PList [])) of
             Inl e \<Rightarrow> Inl e
           | Inr shared_benefits \<Rightarrow>
               (case generate_recommendation product1 product2 comparison of
                  Inl e \<Rightarrow> Inl e
                | Inr recommendation \<Rightarrow>
                    Inr (PDict
                      [(''page_type'', PStr ''comparison''),
                       (''products'', PDict
                          [(''product1'', PDict
                             [(''name'', dict_get product1 ''product_name'' (PStr [])),
                              (''price'', dict_get product1 ''price'' (PStr [])),
                              (''concentration'', dict_get product1 ''concentration'' (PStr [])),
                              (''key_ingredients'', dict_get product1 ''key_ingredients'' (PList [])),
                              (''benefits'', dict_get product1 ''benefits'' (PList [])),
                              (''skin_type'', dict_get product1 ''skin_type'' (PList []))]),
                           (''product2'', PDict
                             [(''name'', dict_get product2 ''product_name'' (PStr [])),
                              (''price'', dict_get product2 ''price'' (PStr [])),
                              (''concentration'', dict_get product2 ''concentration'' (PStr [])),
                              (''key_ingredients'', dict_get product2 ''key_ingredients'' (PList [])),
                              (''benefits'', dict_get product2 ''benefits'' (PList [])),
                              (''skin_type'', dict_get product2 ''skin_type'' (PList []))])]),
                       (''comparison'', PDict
                          [(''ingredients'', PDict
                             [(''common'', dict_get comparison ''common_ingredients'' (PList [])),
                              (''unique_to_product1'',
                                 dict_get comparison ''unique_to_product1'' (PList [])),
                              (''unique_to_product2'',
                                 dict_get comparison ''unique_to_product2'' (PList [])),
                              (''similarity_score'',
                                 dict_get comparison ''similarity_score'' (PNum 0))]),
                           (''price'', PDict
                             [(''product1_price'', dict_get product1 ''price'' (PStr [])),
                              (''product2_price'', dict_get product2 ''price'' (PStr [])),
                              (''price_difference'', PStr
                                 (calculate_price_difference
                                    (dict_get product1 ''price'' (PStr []))
                                    (dict_get product2 ''price'' (PStr []))))]),
                           (''benefits'', PDict
                             [(''product1_benefits'', dict_get product1 ''benefits'' (PList [])),
                              (''product2_benefits'', dict_get product2 ''benefits'' (PList [])),
                              (''shared_benefits'', shared_benefits)])]),
                       (''recommendation'', PStr recommendation)])))
      | _ \<Rightarrow> Inl AttributeError)"

text \<open>
  \<open>TemplateEngine.apply_template\<close>. The registry of \<open>__init__\<close> holds the three templates
  under fixed names and is never changed afterwards.
\<close>

definition template_names :: "string list" where
  "template_names = [''faq'', ''product_description'', ''comparison'']"

definition get_fields :: "string \<Rightarrow> string list" where
  "get_fields template_name =
     (if template_name = ''faq'' then FAQTemplate_get_fields
      else if template_name = ''product_description'' then ProductDescriptionTemplate_get_fields
      else ComparisonTemplate_get_fields)"

definition apply_template ::
  "(pyval \<Rightarrow> string) \<Rightarrow> string \<Rightarrow> (string \<times> pyval) list \<Rightarrow> (string \<times> pyval) list
     \<Rightarrow> py_error + pyval" where
  "apply_template str_of template_name data content_blocks =
     (if template_name \<notin> set template_names then Inl (ValueError ''Unknown template'')
      else
        let required_fields = get_fields template_name;
            missing = filter (\<lambda>field. field \<notin> fst ` set data) required_fields
        in if missing \<noteq> [] then Inl (ValueError ''Missing required fields'')
           else if template_name = ''faq'' then FAQTemplate_apply data content_blocks
           else if template_name = ''product_description''
             then ProductDescriptionTemplate_apply str_of data content_blocks
           else ComparisonTemplate_apply data content_blocks)"

text \<open>The five category names the tools and prompts of the repository use.\<close>

definition fixed_categories :: "string list" where
  "fixed_categories = [''Informational'', ''Safety'', ''Usage'', ''Purchase'', ''Comparison'']"

section \<open>Text returned by the backend\<close>

text \<open>\<open>s.strip()\<close>, for the ASCII white space characters.\<close>

definition is_space :: "char \<Rightarrow> bool" where
  "is_space c = (of_char c \<in> {9, 10, 11, 12, 13, 28, 29, 30, 31, 32 :: nat})"

definition strip :: "string \<Rightarrow> string" where
  "strip s = rev (dropWhile is_space (rev (dropWhile is_space s)))"

text \<open>
  The text before and the text after the first occurrence of a separator, if it occurs.
\<close>

fun cut :: "string \<Rightarrow> string \<Rightarrow> (string \<times> string) option" where
  "cut sep [] = None"
| "cut sep (c # cs) =
     (if starts_with sep (c # cs) then Some ([], drop (length sep) (c # cs))
      else (case cut sep cs of None \<Rightarrow> None | Some (a, b) \<Rightarrow> Some (c # a, b)))"

text \<open>\<open>s.split(sep)[0]\<close>: the text before the first separator, or all of \<open>s\<close>.\<close>

definition split_0 :: "string \<Rightarrow> string \<Rightarrow> string" where
  "split_0 sep s = (case cut sep s of None \<Rightarrow> s | Some (a, b) \<Rightarrow> a)"

text \<open>
  \<open>text.split(fence)[1].split("```")[0].strip()\<close> under the guard \<open>fence in text\<close>:
  \<open>None\<close> when the fence does not occur.
\<close>

definition fenced :: "string \<Rightarrow> string \<Rightarrow> string option" where
  "fenced fence text =
     (case cut fence text of
        None \<Rightarrow> None
      | Some (a, b) \<Rightarrow> Some (strip (split_0 ''```'' (split_0 fence b))))"

text \<open>The \<open>if "```json" in t: ... elif "```" in t: ...\<close> of the agents.\<close>

definition strip_code_fence :: "string \<Rightarrow> string" where
  "strip_code_fence text =
     (case fenced ''```json'' text of
        Some t \<Rightarrow> t
      | None \<Rightarrow> (case fenced ''```'' text of Some t \<Rightarrow> t | None \<Rightarrow> text))"

text \<open>The last attempt of the data parser looks for the labelled fence only.\<close>

definition strip_json_fence :: "string \<Rightarrow> string" where
  "strip_json_fence text = (case fenced ''```json'' text of Some t \<Rightarrow> t | None \<Rightarrow> text)"

section \<open>Collaborators outside the repository\<close>

text \<open>
  A response of the backend: its text and the tool calls it asks for (name and
  arguments).
\<close>

record llm_response =
  content :: string
  tool_calls :: "(string \<times> pyval) list"

text \<open>
  What a function asks of the outside world is recorded as a list of events: the first
  request to the backend, the follow-up request after tool calls were executed, a repair
  request after a failed attempt, and each call of \<open>json.loads\<close> on backend text.
\<close>

datatype event = Request | FollowUp | Repair | Loads

text \<open>
  The outside world is a parameter of the model. \<open>llm n\<close> is the response to the
  \<open>n\<close>-th request a function makes (\<open>None\<close>: the call raises); \<open>loads\<close> is
  \<open>json.loads\<close> (\<open>None\<close>: it raises); \<open>tool_ok name args\<close> tells whether invoking
  a tool with arguments chosen by the backend returns; \<open>str_of\<close> prints a value that is not
  a string.
\<close>

record backend =
  llm :: "nat \<Rightarrow> llm_response option"
  loads :: "string \<Rightarrow> pyval option"
  tool_ok :: "string \<Rightarrow> pyval \<Rightarrow> bool"
  str_of :: "pyval \<Rightarrow> string"

section \<open>The product model (models/product\_model.py)\<close>

fun is_str :: "pyval \<Rightarrow> bool" where
  "is_str (PStr s) = True"
| "is_str v = False"

fun is_str_list :: "pyval \<Rightarrow> bool" where
  "is_str_list (PList xs) = list_all is_str xs"
| "is_str_list v = False"

text \<open>
  The fields of \<open>Product\<close> in the order of the class, each with the check of its type
  (\<open>str\<close> or \<open>List[str]\<close>). All eight are required: \<open>side_effects\<close> has no default.
\<close>

definition product_fields :: "(string \<times> (pyval \<Rightarrow> bool)) list" where
  "product_fields =
     [(''product_name'', is_str), (''concentration'', is_str), (''skin_type'', is_str_list),
      (''key_ingredients'', is_str_list), (''benefits'', is_str_list), (''how_to_use'', is_str),
      (''side_effects'', is_str), (''price'', is_str)]"

text \<open>
  \<open>Product(**d).model_dump()\<close>: validation fails when a field is missing or has the wrong
  type; other keys are ignored; the dump has the eight fields in the order of the class.
\<close>

definition Product :: "(string \<times> pyval) list \<Rightarrow> py_error + (string \<times> pyval) list" where
  "Product d =
     (if list_all (\<lambda>(k, check). case map_of d k of None \<Rightarrow> False | Some v \<Rightarrow> check v)
           product_fields
      then Inr (map (\<lambda>(k, check). (k, dict_get d k PNone)) product_fields)
      else Inl ValidationError)"

section \<open>Validation tools (tools/product\_tools.py)\<close>

definition product_required_fields :: "string list" where
  "product_required_fields =
     [''product_name'', ''concentration'', ''skin_type'', ''key_ingredients'', ''benefits'',
      ''how_to_use'', ''price'']"

definition validate_product_structure :: "(string \<times> pyval) list \<Rightarrow> (string \<times> pyval) list" where
  "validate_product_structure product =
     (let missing = filter (\<lambda>f. f \<notin> fst ` set product) product_required_fields;
          has_all = (length missing = 0)
      in [(''valid'', PBool has_all),
          (''missing_fields'', PList (map PStr missing)),
          (''field_count'',
             PNum (of_nat (length (filter (\<lambda>f. f \<in> fst ` set product) product_required_fields)))),
          (''total_required'', PNum (of_nat (length product_required_fields)))])"

definition validate_data_structure ::
  "(string \<times> pyval) list \<Rightarrow> string list \<Rightarrow> (string \<times> pyval) list" where
  "validate_data_structure data required_fields =
     (let missing = filter (\<lambda>f. f \<notin> fst ` set data \<or> dict_get data f PNone = PNone) required_fields
      in [(''valid'', PBool (length missing = 0)),
          (''missing_fields'', PList (map PStr missing)),
          (''present_fields'',
             PList (map PStr
               (filter (\<lambda>f. f \<in> fst ` set data \<and> dict_get data f PNone \<noteq> PNone) required_fields))),
          (''field_count'',
             PNum (of_nat (length (filter (\<lambda>f. f \<in> fst ` set data) required_fields))))])"

section \<open>The data parser (agents/data\_parser\_agent.py)\<close>

text \<open>
  The requests of \<open>parse_product_data\<close> up to the text it parses first: one request; when
  the response asks for tools, the tools the agent knows are executed (a failing tool
  raises) and a follow-up request gives the text.
\<close>

definition data_parser_tools :: "string list" where
  "data_parser_tools = [''validate_data_structure'', ''analyze_product_data'']"

definition first_answer :: "backend \<Rightarrow> event list \<times> (py_error + string)" where
  "first_answer b =
     (case llm b 0 of
        None \<Rightarrow> ([Request], Inl BackendError)
      | Some response \<Rightarrow>
          if tool_calls response \<noteq> [] then
            (if list_ex (\<lambda>(tool_name, tool_args).
                   tool_name \<in> set data_parser_tools \<and> \<not> tool_ok b tool_name tool_args)
                 (tool_calls response)
             then ([Request], Inl ValidationError)
             else (case llm b 1 of
                     None \<Rightarrow> ([Request, FollowUp], Inl BackendError)
                   | Some final_response \<Rightarrow> ([Request, FollowUp], Inr (content final_response))))
          else ([Request], Inr (content response)))"

text \<open>\<open>Product(**json.loads(text))\<close>, whatever \<open>json.loads\<close> returns.\<close>

definition product_of_text :: "backend \<Rightarrow> string \<Rightarrow> py_error + (string \<times> pyval) list" where
  "product_of_text b text =
     (case loads b text of
        None \<Rightarrow> Inl JSONDecodeError
      | Some fixed_data \<Rightarrow>
          (case as_dict fixed_data of None \<Rightarrow> Inl TypeError | Some d \<Rightarrow> Product d))"

text \<open>
  \<open>DataParserAgent.parse_product_data\<close>. Valid input is parsed without the backend. Else
  the backend is asked; its text is parsed; when that fails in any way, the backend is asked
  once more and whatever happens then is final. The result is the dump of the product.
\<close>

definition parse_product_data ::
  "backend \<Rightarrow> pyval \<Rightarrow> event list \<times> (py_error + (string \<times> pyval) list)" where
  "parse_product_data b raw_data =
     (case as_dict raw_data of
        None \<Rightarrow> ([], Inl ValidationError)
      | Some raw \<Rightarrow>
          let validation = validate_data_structure raw product_required_fields;
              direct = (if truthy (dict_get validation ''valid'' PNone) then Product raw
                        else Inl ValidationError)
          in case direct of
               Inr product \<Rightarrow> ([], Inr product)
             | Inl e \<Rightarrow>
                 (case first_answer b of
                    (evs, Inl e) \<Rightarrow> (evs, Inl e)
                  | (evs, Inr result_text) \<Rightarrow>
                      (case product_of_text b (strip_code_fence result_text) of
                         Inr product \<Rightarrow> (evs @ [Loads], Inr product)
                       | Inl e \<Rightarrow>
                           (case llm b (length evs) of
                              None \<Rightarrow> (evs @ [Loads, Repair], Inl BackendError)
                            | Some simple_response \<Rightarrow>
                                (evs @ [Loads, Repair, Loads],
                                 product_of_text b
                                   (strip_json_fence (strip (content simple_response))))))))"

section \<open>The comparison stage (agents/comparison\_generator\_agent.py)\<close>

text \<open>\<open>d[k] = v\<close> on a dictionary.\<close>

fun dict_set :: "(string \<times> pyval) list \<Rightarrow> string \<Rightarrow> pyval \<Rightarrow> (string \<times> pyval) list" where
  "dict_set [] k v = [(k, v)]"
| "dict_set ((k', v') # kvs) k v =
     (if k' = k then (k, v) # kvs else (k', v') # dict_set kvs k v)"

text \<open>\<open>d.update(u)\<close>.\<close>

definition dict_update :: "(string \<times> pyval) list \<Rightarrow> (string \<times> pyval) list \<Rightarrow> (string \<times> pyval) list" where
  "dict_update d u = foldl (\<lambda>acc (k, v). dict_set acc k v) d u"

text \<open>
  \<open>field in x\<close>: a key of a dictionary, an entry of a list, a part of a string; for any
  other value the test raises \<open>TypeError\<close>.
\<close>

fun py_contains :: "pyval \<Rightarrow> string \<Rightarrow> py_error + bool" where
  "py_contains (PDict kvs) field = Inr (field \<in> fst ` set kvs)"
| "py_contains (PList xs) field = Inr (PStr field \<in> set xs)"
| "py_contains (PStr s) field = Inr (contains field s)"
| "py_contains v field = Inl TypeError"

text \<open>
  The loop over the required fields of Product B: the first field that is not in the value
  raises \<open>ValueError\<close>. \<open>None\<close> means that the loop ran through.
\<close>

fun check_required :: "string list \<Rightarrow> pyval \<Rightarrow> py_error option" where
  "check_required [] product_b = None"
| "check_required (field # rest) product_b =
     (case py_contains product_b field of
        Inl e \<Rightarrow> Some e
      | Inr present \<Rightarrow>
          if \<not> present then Some (ValueError (''Missing required field in Product B: '' @ field))
          else check_required rest product_b)"

definition critical_fields :: "string list" where
  "critical_fields = [''product_name'', ''key_ingredients'', ''benefits'', ''price'']"

text \<open>
  \<open>if not isinstance(p.get(k), list): p[k] = [p.get(k)] if p.get(k) else []\<close>.
\<close>

definition ensure_list :: "(string \<times> pyval) list \<Rightarrow> string \<Rightarrow> (string \<times> pyval) list" where
  "ensure_list product_b key =
     (case dict_get product_b key PNone of
        PList xs \<Rightarrow> product_b
      | v \<Rightarrow> dict_set product_b key (if truthy v then PList [v] else PList []))"

text \<open>The end of \<open>generate_fictional_product_b\<close>: the type fixes and the final validation.\<close>

definition finish_product_b :: "pyval \<Rightarrow> py_error + (string \<times> pyval) list" where
  "finish_product_b product_b =
     (case as_dict product_b of
        None \<Rightarrow> Inl AttributeError
      | Some p \<Rightarrow>
          let p1 = ensure_list p ''skin_type'';
              p2 = ensure_list p1 ''key_ingredients'';
              p3 = ensure_list p2 ''benefits'';
              final_validation = validate_product_structure p3
          in if \<not> truthy (dict_get final_validation ''valid'' PNone)
             then Inl (ValueError ''Product B validation failed'')
             else Inr p3)"

text \<open>
  The middle of \<open>generate_fictional_product_b\<close>, from the loop over the required fields to
  the request that asks the backend to add missing critical fields. \<open>n\<close> is the number of
  requests made so far.
\<close>

definition validate_product_b ::
  "backend \<Rightarrow> nat \<Rightarrow> pyval \<Rightarrow> event list \<times> (py_error + (string \<times> pyval) list)" where
  "validate_product_b b n product_b =
     (case check_required product_required_fields product_b of
        Some e \<Rightarrow> ([], Inl e)
      | None \<Rightarrow>
          (case as_dict product_b of
             None \<Rightarrow> ([], Inl ValidationError)
           | Some p \<Rightarrow>
               let validation = validate_product_structure p in
               if \<not> truthy (dict_get validation ''valid'' PNone) then
                 (let missing_critical =
                        filter (\<lambda>f. f \<in> PStr ` set critical_fields)
                          (case dict_get validation ''missing_fields'' (PList []) of
                             PList fs \<Rightarrow> fs | _ \<Rightarrow> [])
                  in if missing_critical \<noteq> [] then
                       (case llm b n of
                          None \<Rightarrow> ([Repair], Inl BackendError)
                        | Some fix_response \<Rightarrow>
                            (case loads b (strip_code_fence (content fix_response)) of
                               None \<Rightarrow>
                                 ([Repair, Loads],
                                  Inl (ValueError ''Could not generate valid Product B''))
                             | Some fixed \<Rightarrow> ([Repair, Loads], finish_product_b fixed)))
                     else ([], finish_product_b product_b))
               else ([], finish_product_b product_b)))"

text \<open>
  \<open>ComparisonGeneratorAgent.generate_fictional_product_b\<close>. One request; its text is
  parsed; when that raises, one more request is made and its text is parsed, and a failure
  there is final.
\<close>

definition generate_fictional_product_b ::
  "backend \<Rightarrow> pyval \<Rightarrow> event list \<times> (py_error + (string \<times> pyval) list)" where
  "generate_fictional_product_b b product_a_data =
     (case as_dict product_a_data of
        None \<Rightarrow> ([], Inl AttributeError)
      | Some product_a \<Rightarrow>
          (case llm b 0 of
             None \<Rightarrow> ([Request], Inl BackendError)
           | Some response \<Rightarrow>
               (case loads b (strip_code_fence (content response)) of
                  Some product_b \<Rightarrow>
                    (case validate_product_b b 1 product_b of
                       (evs, r) \<Rightarrow> ([Request, Loads] @ evs, r))
                | None \<Rightarrow>
                    (case llm b 1 of
                       None \<Rightarrow> ([Request, Loads, Repair], Inl BackendError)
                     | Some retry_response \<Rightarrow>
                         (case loads b (strip_code_fence (strip (content retry_response))) of
                            None \<Rightarrow> ([Request, Loads, Repair, Loads], Inl JSONDecodeError)
                          | Some product_b \<Rightarrow>
                              (case validate_product_b b 2 product_b of
                                 (evs, r) \<Rightarrow> ([Request, Loads, Repair, Loads] @ evs, r)))))))"

text \<open>The tool \<open>compare_products\<close>.\<close>

definition compare_products ::
  "(string \<times> pyval) list \<Rightarrow> (string \<times> pyval) list \<Rightarrow> py_error + (string \<times> pyval) list" where
  "compare_products product1 product2 =
     (case py_set_op set_inter (dict_get product1 ''key_ingredients'' (PList []))
             (dict_get product2 ''key_ingredients'' (PList [])) of
        Inl e \<Rightarrow> Inl e
      | Inr ingredient_overlap \<Rightarrow>
     (case py_set_op set_minus (dict_get product1 ''key_ingredients'' (PList []))
             (dict_get product2 ''key_ingredients'' (PList [])) of
        Inl e \<Rightarrow> Inl e
      | Inr ingredient_unique_1 \<Rightarrow>
     (case py_set_op set_minus (dict_get product2 ''key_ingredients'' (PList []))
             (dict_get product1 ''key_ingredients'' (PList [])) of
        Inl e \<Rightarrow> Inl e
      | Inr ingredient_unique_2 \<Rightarrow>
     (case py_set_op set_inter (dict_get product1 ''benefits'' (PList []))
             (dict_get product2 ''benefits'' (PList [])) of
        Inl e \<Rightarrow> Inl e
      | Inr benefit_overlap \<Rightarrow>
     (case py_set_op set_inter (dict_get product1 ''skin_type'' (PList []))
             (dict_get product2 ''skin_type'' (PList [])) of
        Inl e \<Rightarrow> Inl e
      | Inr skin_type_overlap \<Rightarrow>
          Inr [(''price_difference'',
                  PBool (dict_get product1 ''price'' (PStr []) \<noteq> dict_get product2 ''price'' (PStr []))),
               (''ingredient_overlap'', ingredient_overlap),
               (''ingredient_unique_1'', ingredient_unique_1),
               (''ingredient_unique_2'', ingredient_unique_2),
               (''benefit_overlap'', benefit_overlap),
               (''skin_type_overlap'', skin_type_overlap)])))))"

definition generate_comparison_page ::
  "backend \<Rightarrow> (string \<times> pyval) list \<Rightarrow> (string \<times> pyval) list \<Rightarrow> py_error + pyval" where
  "generate_comparison_page b product_a_data product_b_data =
     (case compare_products product_a_data product_b_data of
        Inl e \<Rightarrow> Inl e
      | Inr comparison_result \<Rightarrow>
          (case compare_ingredients_py (dict_get product_a_data ''key_ingredients'' (PList []))
                  (dict_get product_b_data ''key_ingredients'' (PList [])) of
             Inl e \<Rightarrow> Inl e
           | Inr c \<Rightarrow>
               (case as_dict c of
                  None \<Rightarrow> Inl TypeError
                | Some ingredients_comparison \<Rightarrow>
                    apply_template (str_of b) ''comparison''
                      [(''product1_data'', PDict product_a_data),
                       (''product2_data'', PDict product_b_data)]
                      [(''ingredients_comparison'',
                          PDict (dict_update ingredients_comparison comparison_result))])))"

text \<open>
  \<open>ComparisonGeneratorAgent.process\<close>. Nothing here catches what the two generators
  raise: an exception leaves \<open>process\<close>.
\<close>

definition ComparisonGeneratorAgent_process ::
  "backend \<Rightarrow> (string \<times> pyval) list \<Rightarrow> py_error + (string \<times> pyval) list" where
  "ComparisonGeneratorAgent_process b state =
     (let product_a_data = dict_get state ''parsed_product'' (PDict []) in
      if \<not> truthy product_a_data
      then Inr [(''errors'', PList [PStr ''Missing product data for comparison generation''])]
      else
        (case snd (generate_fictional_product_b b product_a_data) of
           Inl e \<Rightarrow> Inl e
         | Inr product_b_data \<Rightarrow>
             (case as_dict product_a_data of
                None \<Rightarrow> Inl AttributeError
              | Some product_a \<Rightarrow>
                  (case generate_comparison_page b product_a product_b_data of
                     Inl e \<Rightarrow> Inl e
                   | Inr comparison_page \<Rightarrow>
                       Inr [(''comparison_page'', comparison_page),
                            (''product_b_data'', PDict product_b_data),
                            (''comparison_generated'', PBool True)]))))"

text \<open>\<open>DataParserAgent.process\<close>.\<close>

definition DataParserAgent_process ::
  "backend \<Rightarrow> (string \<times> pyval) list \<Rightarrow> py_error + (string \<times> pyval) list" where
  "DataParserAgent_process b state =
     (let raw_data = dict_get state ''raw_product_data'' PNone in
      if \<not> truthy raw_data
      then Inr [(''errors'', PList [PStr ''No product data provided''])]
      else
        (case snd (parse_product_data b raw_data) of
           Inl e \<Rightarrow> Inl e
         | Inr product \<Rightarrow>
             Inr [(''parsed_product'', PDict product),
                  (''product'', PDict product),
                  (''data_parsed'', PBool True)]))"

section \<open>The other stages\<close>

text \<open>
  The generators inside the remaining stages are parameters of the model: the properties
  below hold whatever they return or raise. \<open>error_text\<close> is \<open>str(e)\<close> for an exception,
  \<open>type_text\<close> is \<open>str(type(x))\<close>; \<open>save_pages\<close> is the part of \<open>format_and_save\<close> that
  validates and writes the three pages and gives the dictionary of the files created;
  \<open>write_json\<close> writes one page to a path (\<open>Some e\<close>: it raises) and \<open>path_of\<close> is
  \<open>os.path.join(self.output_dir, name)\<close>.
\<close>

record world =
  parser_backend :: backend
  comparison_backend :: backend
  generate_all_blocks :: "pyval \<Rightarrow> py_error + pyval"
  generate_categorized_questions :: "pyval \<Rightarrow> py_error + pyval"
  generate_faq_page :: "pyval \<Rightarrow> pyval \<Rightarrow> py_error + pyval"
  generate_product_page :: "pyval \<Rightarrow> pyval \<Rightarrow> py_error + pyval"
  save_pages :: "pyval \<Rightarrow> pyval \<Rightarrow> pyval \<Rightarrow> py_error + pyval"
  write_json :: "string \<Rightarrow> pyval \<Rightarrow> py_error option"
  path_of :: "string \<Rightarrow> string"
  output_dir :: string
  error_text :: "py_error \<Rightarrow> string"
  type_text :: "pyval \<Rightarrow> string"

text \<open>\<open>len(x)\<close>.\<close>

fun py_len :: "pyval \<Rightarrow> py_error + nat" where
  "py_len (PList xs) = Inr (length xs)"
| "py_len (PStr s) = Inr (length s)"
| "py_len (PDict kvs) = Inr (length (remdups (map fst kvs)))"
| "py_len v = Inl TypeError"

text \<open>\<open>ContentBlocksAgent.process\<close>.\<close>

definition ContentBlocksAgent_process ::
  "world \<Rightarrow> (string \<times> pyval) list \<Rightarrow> py_error + (string \<times> pyval) list" where
  "ContentBlocksAgent_process w state =
     (let product_data = dict_get state ''parsed_product'' (PDict []) in
      if \<not> truthy product_data
      then Inr [(''errors'', PList [PStr ''No product data available for content block generation''])]
      else
        (case generate_all_blocks w product_data of
           Inl e \<Rightarrow> Inl e
         | Inr content_blocks \<Rightarrow>
             Inr [(''content_blocks'', content_blocks),
                  (''content_blocks_generated'', PBool True)]))"

text \<open>
  One element of \<open>set(q.get("category", "Informational") for q in questions if
  q.get("category"))\<close>: the category of \<open>q\<close> when it is true, nothing otherwise.
\<close>

fun question_category :: "pyval \<Rightarrow> py_error + pyval option" where
  "question_category (PDict q) =
     (let c = dict_get q ''category'' PNone in
      if truthy c then (if hashable c then Inr (Some c) else Inl TypeError) else Inr None)"
| "question_category v = Inl AttributeError"

text \<open>The body of the \<open>try\<close> of \<open>QuestionGeneratorAgent.process\<close>.\<close>

definition question_update ::
  "world \<Rightarrow> pyval \<Rightarrow> py_error + (string \<times> pyval) list" where
  "question_update w product_data =
     (case generate_categorized_questions w product_data of
        Inl e \<Rightarrow> Inl e
      | Inr questions \<Rightarrow>
          if \<not> truthy questions then
            Inr [(''errors'', PList [PStr
                    ''Question generator failed to generate any questions. Check API connection.'']),
                 (''questions'', PList []),
                 (''questions_generated'', PBool False),
                 (''question_count'', PNum 0)]
          else
            (case py_len questions of
               Inl e \<Rightarrow> Inl e
             | Inr n \<Rightarrow>
                 (case py_iter questions of
                    Inl e \<Rightarrow> Inl e
                  | Inr qs \<Rightarrow>
                      (case collect question_category qs of
                         Inl e \<Rightarrow> Inl e
                       | Inr cs \<Rightarrow>
                           Inr [(''questions'', questions),
                                (''questions_generated'', PBool True),
                                (''question_count'', PNum (of_nat n)),
                                (''categories'',
                                   PList (remdups (concat (map (\<lambda>c. case c of None \<Rightarrow> [] | Some v \<Rightarrow> [v]) cs))))]))))"

text \<open>\<open>QuestionGeneratorAgent.process\<close>: every exception of the body becomes an error record.\<close>

definition QuestionGeneratorAgent_process ::
  "world \<Rightarrow> (string \<times> pyval) list \<Rightarrow> py_error + (string \<times> pyval) list" where
  "QuestionGeneratorAgent_process w state =
     (let product_data = dict_get state ''parsed_product'' (PDict []) in
      if \<not> truthy product_data
      then Inr [(''errors'', PList [PStr ''No product data available for question generation''])]
      else
        (case question_update w product_data of
           Inr u \<Rightarrow> Inr u
         | Inl e \<Rightarrow>
             Inr [(''errors'', PList [PStr (''Question generator error: '' @ error_text w e)]),
                  (''questions'', PList []),
                  (''questions_generated'', PBool False),
                  (''question_count'', PNum 0)]))"

fun is_list :: "pyval \<Rightarrow> bool" where
  "is_list (PList xs) = True"
| "is_list v = False"

text \<open>\<open>FAQGeneratorAgent.process\<close>: every exception of the generator becomes an error record.\<close>

definition FAQGeneratorAgent_process ::
  "world \<Rightarrow> (string \<times> pyval) list \<Rightarrow> py_error + (string \<times> pyval) list" where
  "FAQGeneratorAgent_process w state =
     (let product_data = dict_get state ''parsed_product'' PNone;
          questions = dict_get state ''questions'' PNone
      in
      if \<not> truthy product_data then
        Inr [(''errors'', PList [PStr
               ''Missing product data for FAQ generation. Data parser may have failed.''])]
      else if \<not> truthy questions then
        Inr [(''errors'', PList [PStr
               ''Missing questions for FAQ generation. Question generator may have failed.''])]
      else if \<not> is_list questions \<or> questions = PList [] then
        Inr [(''errors'', PList [PStr
               (''Questions list is empty or invalid. Got: '' @ type_text w questions
                  @ ''. Question generator may have failed.'')]),
             (''faq_page'', PNone),
             (''faq_generated'', PBool False)]
      else
        (case generate_faq_page w product_data questions of
           Inl e \<Rightarrow>
             Inr [(''errors'', PList [PStr (''FAQ generation error: '' @ error_text w e)]),
                  (''faq_page'', PNone),
                  (''faq_generated'', PBool False)]
         | Inr faq_page \<Rightarrow>
             if \<not> truthy faq_page then
               Inr [(''errors'', PList [PStr ''FAQ page generation returned empty result'']),
                    (''faq_page'', PNone),
                    (''faq_generated'', PBool False)]
             else
               Inr [(''faq_page'', faq_page), (''faq_generated'', PBool True)]))"

text \<open>\<open>ProductPageGeneratorAgent.process\<close>.\<close>

definition ProductPageGeneratorAgent_process ::
  "world \<Rightarrow> (string \<times> pyval) list \<Rightarrow> py_error + (string \<times> pyval) list" where
  "ProductPageGeneratorAgent_process w state =
     (let product_data = dict_get state ''parsed_product'' (PDict []);
          content_blocks = dict_get state ''content_blocks'' (PDict [])
      in
      if \<not> truthy product_data \<or> \<not> truthy content_blocks then
        Inr [(''errors'', PList [PStr
               ''Missing product data or content blocks for product page generation''])]
      else
        (case generate_product_page w product_data content_blocks of
           Inl e \<Rightarrow> Inl e
         | Inr product_page \<Rightarrow>
             Inr [(''product_page'', product_page),
                  (''product_page_generated'', PBool True)]))"

text \<open>\<open>', '.join(xs)\<close>.\<close>

fun join_comma :: "string list \<Rightarrow> string" where
  "join_comma [] = []"
| "join_comma [x] = x"
| "join_comma (x # y # ys) = x @ '', '' @ join_comma (y # ys)"

text \<open>
  \<open>JSONOutputAgent.format_and_save\<close>: the three keys of its result; the files are the
  part left to the parameter.
\<close>

definition format_and_save ::
  "world \<Rightarrow> pyval \<Rightarrow> pyval \<Rightarrow> pyval \<Rightarrow> py_error + (string \<times> pyval) list" where
  "format_and_save w faq_page product_page comparison_page =
     (case save_pages w faq_page product_page comparison_page of
        Inl e \<Rightarrow> Inl e
      | Inr files_created \<Rightarrow>
          (case py_len files_created of
             Inl e \<Rightarrow> Inl e
           | Inr n \<Rightarrow>
               Inr [(''files_created'', files_created),
                    (''output_directory'', PStr (output_dir w)),
                    (''all_pages_generated'', PBool (n = 3))]))"

text \<open>\<open>JSONOutputAgent.process\<close>.\<close>

definition JSONOutputAgent_process ::
  "world \<Rightarrow> (string \<times> pyval) list \<Rightarrow> py_error + (string \<times> pyval) list" where
  "JSONOutputAgent_process w state =
     (let faq_page = dict_get state ''faq_page'' PNone;
          product_page = dict_get state ''product_page'' PNone;
          comparison_page = dict_get state ''comparison_page'' PNone;
          missing = (if \<not> truthy faq_page then [''FAQ page''] else [])
                  @ (if \<not> truthy product_page then [''Product page''] else [])
                  @ (if \<not> truthy comparison_page then [''Comparison page''] else [])
      in
      if missing \<noteq> [] then
        (let error_msg = ''Missing pages for JSON output: '' @ join_comma missing in
         if truthy product_page \<and> truthy comparison_page then
           (case write_json w (path_of w ''product_page.json'') product_page of
              Some e \<Rightarrow> Inl e
            | None \<Rightarrow>
                (case write_json w (path_of w ''comparison_page.json'') comparison_page of
                   Some e \<Rightarrow> Inl e
                 | None \<Rightarrow>
                     Inr [(''files_created'', PDict
                             [(''product_page'', PStr (path_of w ''product_page.json'')),
                              (''comparison_page'', PStr (path_of w ''comparison_page.json''))]),
                          (''output_directory'', PStr (output_dir w)),
                          (''errors'', PList [PStr error_msg]),
                          (''json_output_complete'', PBool False)]))
         else Inr [(''errors'', PList [PStr error_msg])])
      else
        (case format_and_save w faq_page product_page comparison_page of
           Inl e \<Rightarrow> Inl e
         | Inr result \<Rightarrow> Inr (result @ [(''json_output_complete'', PBool True)])))"

section \<open>The workflow (workflow/product\_workflow.py, state/product\_state\_schema.py)\<close>

text \<open>The keys of \<open>ProductState\<close>. None of them is declared with a reducer.\<close>

definition state_keys :: "string list" where
  "state_keys =
     [''raw_product_data'', ''parsed_product'', ''product'', ''data_parsed'',
      ''content_blocks'', ''content_blocks_generated'',
      ''questions'', ''questions_generated'', ''question_count'', ''categories'',
      ''faq_page'', ''faq_generated'',
      ''product_page'', ''product_page_generated'',
      ''comparison_page'', ''product_b_data'', ''comparison_generated'',
      ''files_created'', ''output_directory'', ''json_output_complete'',
      ''errors'']"

text \<open>The nodes and edges \<open>_build_workflow\<close> adds, and its entry point.\<close>

definition workflow_nodes :: "string list" where
  "workflow_nodes =
     [''data_parser'', ''content_blocks'', ''question_generator'', ''faq_generator'',
      ''product_page_generator'', ''comparison_generator'', ''json_output'']"

definition workflow_edges :: "(string \<times> string) list" where
  "workflow_edges =
     [(''data_parser'', ''content_blocks''),
      (''data_parser'', ''question_generator''),
      (''content_blocks'', ''faq_generator''),
      (''content_blocks'', ''product_page_generator''),
      (''question_generator'', ''faq_generator''),
      (''content_blocks'', ''comparison_generator''),
      (''faq_generator'', ''json_output''),
      (''product_page_generator'', ''json_output''),
      (''comparison_generator'', ''json_output''),
      (''json_output'', ''END'')]"

definition entry_point :: string where
  "entry_point = ''data_parser''"

text \<open>The function each node runs.\<close>

definition node_process ::
  "world \<Rightarrow> string \<Rightarrow> (string \<times> pyval) list \<Rightarrow> py_error + (string \<times> pyval) list" where
  "node_process w node =
     (if node = ''data_parser'' then DataParserAgent_process (parser_backend w)
      else if node = ''content_blocks'' then ContentBlocksAgent_process w
      else if node = ''question_generator'' then QuestionGeneratorAgent_process w
      else if node = ''faq_generator'' then FAQGeneratorAgent_process w
      else if node = ''product_page_generator'' then ProductPageGeneratorAgent_process w
      else if node = ''comparison_generator''
        then ComparisonGeneratorAgent_process (comparison_backend w)
      else JSONOutputAgent_process w)"

text \<open>The state \<open>run\<close> starts from.\<close>

definition initial_state :: "pyval \<Rightarrow> (string \<times> pyval) list" where
  "initial_state product_data =
     [(''raw_product_data'', product_data),
      (''parsed_product'', PNone),
      (''product'', PNone),
      (''data_parsed'', PBool False),
      (''content_blocks'', PNone),
      (''content_blocks_generated'', PBool False),
      (''questions'', PNone),
      (''questions_generated'', PBool False),
      (''question_count'', PNum 0),
      (''categories'', PNone),
      (''faq_page'', PNone),
      (''faq_generated'', PBool False),
      (''product_page'', PNone),
      (''product_page_generated'', PBool False),
      (''comparison_page'', PNone),
      (''product_b_data'', PNone),
      (''comparison_generated'', PBool False),
      (''files_created'', PNone),
      (''output_directory'', PNone),
      (''json_output_complete'', PBool False),
      (''errors'', PList [])]"

text \<open>
  The execution of the compiled graph by the graph library, as far as the properties below
  need it. The graph runs in steps. The nodes of a step all read the state the step starts
  from; an exception raised by a node leaves \<open>invoke\<close>. Of the dictionary a node returns,
  the keys of the state schema are kept. A key declared without a reducer takes the new
  value in place of the old one, and two values for such a key in one step are an error of
  the library. The nodes of the next step are the targets of the edges that leave the nodes
  of this step. The library stops with an error after 25 steps.
\<close>

definition merge_updates ::
  "(string \<times> pyval) list \<Rightarrow> (string \<times> pyval) list list \<Rightarrow> py_error + (string \<times> pyval) list" where
  "merge_updates state updates =
     (let writes = concat (map (filter (\<lambda>(k, v). k \<in> set state_keys)) updates) in
      if \<not> distinct (map fst writes) then Inl (ValueError ''InvalidUpdateError'')
      else Inr (dict_update state writes))"

definition superstep ::
  "world \<Rightarrow> string list \<Rightarrow> (string \<times> pyval) list \<Rightarrow> py_error + (string \<times> pyval) list" where
  "superstep w nodes state =
     (case collect (\<lambda>node. node_process w node state) nodes of
        Inl e \<Rightarrow> Inl e
      | Inr updates \<Rightarrow> merge_updates state updates)"

definition next_nodes :: "string list \<Rightarrow> string list" where
  "next_nodes nodes =
     filter (\<lambda>n. \<exists>(src, dst) \<in> set workflow_edges. src \<in> set nodes \<and> dst = n) workflow_nodes"

fun invoke ::
  "nat \<Rightarrow> world \<Rightarrow> string list \<Rightarrow> (string \<times> pyval) list \<Rightarrow> py_error + (string \<times> pyval) list" where
  "invoke limit w [] state = Inr state"
| "invoke 0 w (n # ns) state = Inl (ValueError ''GraphRecursionError'')"
| "invoke (Suc limit) w (n # ns) state =
     (case superstep w (n # ns) state of
        Inl e \<Rightarrow> Inl e
      | Inr state' \<Rightarrow> invoke limit w (next_nodes (n # ns)) state')"

text \<open>\<open>ProductContentWorkflow.run\<close>.\<close>

definition run :: "world \<Rightarrow> pyval \<Rightarrow> py_error + (string \<times> pyval) list" where
  "run w product_data = invoke 25 w [entry_point] (initial_state product_data)"

section \<open>Reading the result of a run\<close>

text \<open>The value of a slot in the state a run returns.\<close>

definition result_slot ::
  "string \<Rightarrow> py_error + (string \<times> pyval) list \<Rightarrow> py_error + pyval" where
  "result_slot k r = (case r of Inl e \<Rightarrow> Inl e | Inr state \<Rightarrow> Inr (dict_get state k PNone))"

fun is_bool :: "pyval \<Rightarrow> bool" where
  "is_bool (PBool b) = True"
| "is_bool v = False"

text \<open>The completion flags of \<open>ProductState\<close>, one for each stage.\<close>

definition completion_flags :: "string list" where
  "completion_flags =
     [''data_parsed'', ''content_blocks_generated'', ''questions_generated'', ''faq_generated'',
      ''product_page_generated'', ''comparison_generated'', ''json_output_complete'']"

text \<open>A slot holds a value of its kind: a list of errors, a truth value as a flag.\<close>

definition slot_ok :: "string \<Rightarrow> pyval \<Rightarrow> bool" where
  "slot_ok k v = ((k = ''errors'' \<longrightarrow> is_list v) \<and> (k \<in> set completion_flags \<longrightarrow> is_bool v))"


text \<open>
  The keys other than \<open>errors\<close> that occur in the dictionaries the \<open>process\<close> of a stage
  returns.
\<close>

definition written_keys :: "string \<Rightarrow> string list" where
  "written_keys node =
     (if node = ''data_parser'' then [''parsed_product'', ''product'', ''data_parsed'']
      else if node = ''content_blocks'' then [''content_blocks'', ''content_blocks_generated'']
      else if node = ''question_generator''
        then [''questions'', ''questions_generated'', ''question_count'', ''categories'']
      else if node = ''faq_generator'' then [''faq_page'', ''faq_generated'']
      else if node = ''product_page_generator'' then [''product_page'', ''product_page_generated'']
      else if node = ''comparison_generator''
        then [''comparison_page'', ''product_b_data'', ''comparison_generated'']
      else [''files_created'', ''output_directory'', ''all_pages_generated'',
            ''json_output_complete''])"


section \<open>Sample inputs\<close>

text \<open>Concrete inputs and outputs the properties below are checked on.\<close>

definition sample_questions :: "pyval list" where
  "sample_questions =
     [PDict [(''question'', PStr ''What is it?''), (''answer'', PStr ''A serum.''),
             (''category'', PStr ''General'')],
      PDict [(''question'', PStr ''Is it safe?''), (''answer'', PStr ''Yes.'')],
      PDict [(''question'', PStr ''How to use it?''), (''answer'', PStr ''Daily.'')],
      PDict [(''question'', PStr ''What is the price?''), (''answer'', PStr ''699.'')],
      PDict [(''question'', PStr ''Serum vs cream?''), (''answer'', PStr ''Serum.'')],
      PDict [(''question'', PStr ''Who makes it?''), (''answer'', PStr ''GlowBoost.'')],
      PDict [(''question'', PStr ''Is there a risk?''), (''answer'', PStr ''No.'')]]"

definition sample_faq_page :: pyval where
  "sample_faq_page = PDict
     [(''page_type'', PStr ''faq''),
      (''product_name'', PStr ''GlowBoost''),
      (''faq_items'', PList
         [PDict [(''question'', PStr ''What is it?''), (''answer'', PStr ''A serum.''),
                 (''category'', PStr ''General'')],
          PDict [(''question'', PStr ''Is it safe?''), (''answer'', PStr ''Yes.''),
                 (''category'', PStr ''Safety'')],
          PDict [(''question'', PStr ''How to use it?''), (''answer'', PStr ''Daily.''),
                 (''category'', PStr ''Usage'')],
          PDict [(''question'', PStr ''What is the price?''), (''answer'', PStr ''699.''),
                 (''category'', PStr ''Purchase'')],
          PDict [(''question'', PStr ''Serum vs cream?''), (''answer'', PStr ''Serum.''),
                 (''category'', PStr ''Comparison'')]]),
      (''total_questions'', PNum 5),
      (''categories'', PList [PStr ''General'', PStr ''Safety'', PStr ''Usage'',
                              PStr ''Purchase'', PStr ''Comparison''])]"


text \<open>The product record of \<open>main_product.py\<close> and a second product for the comparison.\<close>

definition sample_product :: "(string \<times> pyval) list" where
  "sample_product =
     [(''product_name'', PStr ''GlowBoost Vitamin C Serum''),
      (''concentration'', PStr ''10% Vitamin C''),
      (''skin_type'', PList [PStr ''Oily'', PStr ''Combination'']),
      (''key_ingredients'', PList [PStr ''Vitamin C'', PStr ''Hyaluronic Acid'']),
      (''benefits'', PList [PStr ''Brightening'', PStr ''Fades dark spots'']),
      (''how_to_use'', PStr ''Apply 2-3 drops in the morning before sunscreen''),
      (''side_effects'', PStr ''Mild tingling for sensitive skin''),
      (''price'', PStr (rupee @ ''699''))]"

definition sample_product_b :: "(string \<times> pyval) list" where
  "sample_product_b =
     [(''product_name'', PStr ''RadiantGlow Serum''),
      (''concentration'', PStr ''15% Vitamin C''),
      (''skin_type'', PList [PStr ''Dry'']),
      (''key_ingredients'', PList [PStr ''Vitamin C'', PStr ''Niacinamide'']),
      (''benefits'', PList [PStr ''Brightening'', PStr ''Hydration'']),
      (''how_to_use'', PStr ''Apply at night''),
      (''price'', PStr (rupee @ ''799''))]"

text \<open>
  A backend that never returns JSON, one that always returns the second product, and one
  that always returns the second product without its price.
\<close>

definition prose_backend :: backend where
  "prose_backend =
     \<lparr> llm = (\<lambda>n. Some \<lparr> content = ''Sorry, I cannot help.'', tool_calls = [] \<rparr>),
       loads = (\<lambda>s. None),
       tool_ok = (\<lambda>name args. True),
       str_of = (\<lambda>v. []) \<rparr>"

definition good_backend :: backend where
  "good_backend =
     \<lparr> llm = (\<lambda>n. Some \<lparr> content = ''{...}'', tool_calls = [] \<rparr>),
       loads = (\<lambda>s. Some (PDict sample_product_b)),
       tool_ok = (\<lambda>name args. True),
       str_of = (\<lambda>v. []) \<rparr>"

definition no_price_backend :: backend where
  "no_price_backend =
     \<lparr> llm = (\<lambda>n. Some \<lparr> content = ''{...}'', tool_calls = [] \<rparr>),
       loads = (\<lambda>s. Some (PDict (filter (\<lambda>kv. fst kv \<noteq> ''price'') sample_product_b))),
       tool_ok = (\<lambda>name args. True),
       str_of = (\<lambda>v. []) \<rparr>"

text \<open>
  A world in which every generator works: the pages come from the templates, the
  questions are the sample questions, and the files are written. In the second world the
  backend of the comparison stage leaves out the price; in the third the question
  generator raises.
\<close>

definition good_world :: world where
  "good_world =
     \<lparr> parser_backend = prose_backend,
       comparison_backend = good_backend,
       generate_all_blocks = (\<lambda>pd. Inr (PDict [(''benefits'', PDict [])])),
       generate_categorized_questions = (\<lambda>pd. Inr (PList sample_questions)),
       generate_faq_page = (\<lambda>pd qs.
          apply_template (\<lambda>v. []) ''faq'' [(''questions'', qs), (''product_data'', pd)] []),
       generate_product_page = (\<lambda>pd cb.
          apply_template (\<lambda>v. []) ''product_description''
            [(''product_data'', pd), (''benefits_content'', PDict []),
             (''usage_content'', PDict []), (''ingredients_content'', PDict []),
             (''safety_content'', PDict [])]
            (case as_dict cb of None \<Rightarrow> [] | Some kvs \<Rightarrow> kvs)),
       save_pages = (\<lambda>faq product comparison. Inr (PDict
          [(''faq'', PStr ''outputs/faq.json''),
           (''product_page'', PStr ''outputs/product_page.json''),
           (''comparison_page'', PStr ''outputs/comparison_page.json'')])),
       write_json = (\<lambda>path page. None),
       path_of = (\<lambda>name. ''outputs/'' @ name),
       output_dir = ''outputs'',
       error_text = (\<lambda>e. ''backend unavailable''),
       type_text = (\<lambda>v. ''<class ?>'') \<rparr>"

definition no_price_world :: world where
  "no_price_world = good_world \<lparr> comparison_backend := no_price_backend \<rparr>"


section \<open>Properties of the currency delta\<close>












section \<open>Properties of the ingredient comparison\<close>








section \<open>Properties of the category inference\<close>

lemma starts_with_iff: "starts_with w s \<longleftrightarrow> (\<exists>post. s = w @ post)"
  by (induction w s rule: starts_with.induct) auto

lemma contains_iff: "contains w s \<longleftrightarrow> (\<exists>pre post. s = pre @ w @ post)"
proof (induction s)
  case Nil
  then show ?case by simp
next
  case (Cons c cs)
  show ?case
  proof
    assume "contains w (c # cs)"
    then consider "starts_with w (c # cs)" | "contains w cs" by auto
    then show "\<exists>pre post. c # cs = pre @ w @ post"
    proof cases
      case 1
      then obtain post where "c # cs = w @ post" using starts_with_iff by blast
      then have "c # cs = [] @ w @ post" by simp
      then show ?thesis by blast
    next
      case 2
      then obtain pre post where "cs = pre @ w @ post" using Cons.IH by blast
      then have "c # cs = (c # pre) @ w @ post" by simp
      then show ?thesis by blast
    qed
  next
    assume "\<exists>pre post. c # cs = pre @ w @ post"
    then obtain pre post where e: "c # cs = pre @ w @ post" by blast
    show "contains w (c # cs)"
    proof (cases pre)
      case Nil
      with e have "starts_with w (c # cs)" using starts_with_iff by auto
      then show ?thesis by simp
    next
      case (Cons p pre')
      with e have "cs = pre' @ w @ post" by simp
      then have "contains w cs" using Cons.IH by blast
      then show ?thesis by simp
    qed
  qed
qed

lemma mentions_iff: "mentions words question \<longleftrightarrow> any_word_in words (lower question)"
  by (auto simp add: mentions_def any_word_in_def list_ex_iff contains_iff)

lemma faq_infer_category_fixed: "faq_infer_category q \<in> set fixed_categories"
  by (simp add: faq_infer_category_def fixed_categories_def Let_def)

text \<open>
  Claim C7. Both cascades test the safety words first, then the usage words, then the
  purchase words, then the comparison words, each on the lowered question, and give the
  baseline category exactly when no word of any list occurs. An entry of the FAQ page
  whose category is missing or false gets the category of the cascade of the template.
\<close>

theorem category_cascade:
  "(faq_infer_category q = ''Safety'' \<longleftrightarrow> mentions faq_safety_words q)
   \<and> (faq_infer_category q = ''Usage'' \<longleftrightarrow>
        \<not> mentions faq_safety_words q \<and> mentions faq_usage_words q)
   \<and> (faq_infer_category q = ''Purchase'' \<longleftrightarrow>
        \<not> mentions faq_safety_words q \<and> \<not> mentions faq_usage_words q
        \<and> mentions faq_purchase_words q)
   \<and> (faq_infer_category q = ''Comparison'' \<longleftrightarrow>
        \<not> mentions faq_safety_words q \<and> \<not> mentions faq_usage_words q
        \<and> \<not> mentions faq_purchase_words q \<and> mentions faq_comparison_words q)
   \<and> (faq_infer_category q = ''Informational'' \<longleftrightarrow>
        \<not> mentions faq_safety_words q \<and> \<not> mentions faq_usage_words q
        \<and> \<not> mentions faq_purchase_words q \<and> \<not> mentions faq_comparison_words q)
   \<and> (categorize_question q pd = ''Safety'' \<longleftrightarrow> mentions tool_safety_words q)
   \<and> (categorize_question q pd = ''Usage'' \<longleftrightarrow>
        \<not> mentions tool_safety_words q \<and> mentions tool_usage_words q)
   \<and> (categorize_question q pd = ''Purchase'' \<longleftrightarrow>
        \<not> mentions tool_safety_words q \<and> \<not> mentions tool_usage_words q
        \<and> mentions tool_purchase_words q)
   \<and> (categorize_question q pd = ''Comparison'' \<longleftrightarrow>
        \<not> mentions tool_safety_words q \<and> \<not> mentions tool_usage_words q
        \<and> \<not> mentions tool_purchase_words q \<and> mentions tool_comparison_words q)
   \<and> (categorize_question q pd = ''Informational'' \<longleftrightarrow>
        \<not> mentions tool_safety_words q \<and> \<not> mentions tool_usage_words q
        \<and> \<not> mentions tool_purchase_words q \<and> \<not> mentions tool_comparison_words q)
   \<and> (\<not> truthy (dict_get qa ''category'' PNone) \<and> dict_get qa ''question'' (PStr []) = PStr q
        \<longrightarrow> (\<exists>item. faq_item (PDict qa) = Inr item
               \<and> item_category item = PStr (faq_infer_category q)))"
  by (simp add: faq_infer_category_def categorize_question_def mentions_iff Let_def
      item_category_def dict_get_def)

text \<open>
  A question that mentions both a safety word and a usage word is a safety question; one
  with a purchase word only is a purchase question; one without any keyword is
  informational.
\<close>

theorem category_cascade_witness:
  "faq_infer_category ''Is it SAFE to use daily?'' = ''Safety''
   \<and> categorize_question ''What does it cost?'' PNone = ''Purchase''
   \<and> faq_infer_category ''What is in the bottle?'' = ''Informational''
   \<and> (\<exists>item. faq_item (PDict [(''question'', PStr ''Is it SAFE to use daily?'')]) = Inr item
        \<and> item_category item = PStr ''Safety'')"
proof -
  let ?q = "''Is it SAFE to use daily?''"
  have a: "mentions faq_safety_words ?q" unfolding mentions_iff by code_simp
  have b: "\<not> mentions tool_safety_words ''What does it cost?''
      \<and> \<not> mentions tool_usage_words ''What does it cost?''
      \<and> mentions tool_purchase_words ''What does it cost?''"
    unfolding mentions_iff by code_simp
  have c: "\<not> mentions faq_safety_words ''What is in the bottle?''
      \<and> \<not> mentions faq_usage_words ''What is in the bottle?''
      \<and> \<not> mentions faq_purchase_words ''What is in the bottle?''
      \<and> \<not> mentions faq_comparison_words ''What is in the bottle?''"
    unfolding mentions_iff by code_simp
  have d: "\<not> truthy (dict_get [(''question'', PStr ?q)] ''category'' PNone)
      \<and> dict_get [(''question'', PStr ?q)] ''question'' (PStr []) = PStr ?q"
    by (simp add: dict_get_def)
  have 1: "faq_infer_category ?q = ''Safety''"
    using a category_cascade [of ?q PNone "[(''question'', PStr ?q)]"] by blast
  have 2: "categorize_question ''What does it cost?'' PNone = ''Purchase''"
    using b category_cascade [of "''What does it cost?''" PNone "[]"] by blast
  have 3: "faq_infer_category ''What is in the bottle?'' = ''Informational''"
    using c category_cascade [of "''What is in the bottle?''" PNone "[]"] by blast
  have 4: "\<exists>item. faq_item (PDict [(''question'', PStr ?q)]) = Inr item
        \<and> item_category item = PStr (faq_infer_category ?q)"
    using d category_cascade [of ?q PNone "[(''question'', PStr ?q)]"] by blast
  show ?thesis using 1 2 3 4 by simp
qed

section \<open>Properties of the FAQ page\<close>

lemma collect_set:
  "collect f xs = Inr ys \<Longrightarrow> y \<in> set ys \<Longrightarrow> \<exists>x \<in> set xs. f x = Inr y"
  by (induction xs arbitrary: ys) (auto split: sum.splits)

lemma collect_length: "collect f xs = Inr ys \<Longrightarrow> length ys = length xs"
  by (induction xs arbitrary: ys) (auto split: sum.splits)

lemma py_slice_to_length: "py_slice_to n v = Inr qs \<Longrightarrow> length qs \<le> n"
  by (cases v) auto

lemma faq_item_category:
  assumes "faq_item v = Inr item"
  shows "truthy (item_category item)
     \<and> (item_category item \<in> PStr ` set fixed_categories
        \<or> (\<exists>qa. v = PDict qa \<and> item_category item = dict_get qa ''category'' PNone))"
proof (cases v)
  case (PDict qa)
  show ?thesis
  proof (cases "truthy (dict_get qa ''category'' PNone)")
    case True
    with assms PDict have "item_category item = dict_get qa ''category'' PNone"
      by (auto simp add: item_category_def dict_get_def Let_def)
    with True PDict show ?thesis by simp
  next
    case False
    with assms PDict obtain q where q: "dict_get qa ''question'' (PStr []) = PStr q"
      and "item_category item = PStr (faq_infer_category q)"
      by (auto simp add: item_category_def Let_def split: pyval.splits)
        (simp add: dict_get_def)
    moreover have "faq_infer_category q \<noteq> []"
      by (simp add: faq_infer_category_def Let_def)
    ultimately show ?thesis using faq_infer_category_fixed [of q] by simp
  qed
qed (use assms in simp_all)

text \<open>
  Claim C10, as the code has it. A page the FAQ template returns holds at most five
  entries, its \<open>total_questions\<close> is their number, and the category of every entry is a
  true (non-empty) value: one of the five fixed names when it was inferred, and otherwise
  the category the question came with, whatever it is.
\<close>

theorem faq_page_amended:
  assumes "FAQTemplate_apply data content_blocks = Inr page"
  shows "\<exists>kvs items qs. page = PDict kvs
     \<and> py_slice_to 5 (dict_get data ''questions'' (PList [])) = Inr qs
     \<and> dict_get kvs ''faq_items'' PNone = PList items
     \<and> length items \<le> 5
     \<and> dict_get kvs ''total_questions'' PNone = PNum (of_nat (length items))
     \<and> (\<forall>item \<in> set items. truthy (item_category item)
          \<and> (item_category item \<in> PStr ` set fixed_categories
             \<or> (\<exists>qa. PDict qa \<in> set qs
                  \<and> item_category item = dict_get qa ''category'' PNone)))"
proof -
  from assms obtain qs items name where
    qs: "py_slice_to 5 (dict_get data ''questions'' (PList [])) = Inr qs"
    and items: "collect faq_item qs = Inr items"
    and page: "page = PDict
       [(''page_type'', PStr ''faq''), (''product_name'', name), (''faq_items'', PList items),
        (''total_questions'', PNum (of_nat (length items))),
        (''categories'', PList (remdups (map item_category items)))]"
    by (auto simp add: FAQTemplate_apply_def Let_def split: sum.splits if_splits)
  have len: "length items = length qs" using items by (rule collect_length)
  have each: "truthy (item_category item)
      \<and> (item_category item \<in> PStr ` set fixed_categories
         \<or> (\<exists>qa. PDict qa \<in> set qs \<and> item_category item = dict_get qa ''category'' PNone))"
    if "item \<in> set items" for item
  proof -
    from collect_set [OF items that] obtain v where v: "v \<in> set qs"
      and f: "faq_item v = Inr item" by blast
    from faq_item_category [OF f] v show ?thesis by auto
  qed
  have "length items \<le> 5" using py_slice_to_length [OF qs] len by simp
  moreover have "dict_get
       [(''page_type'', PStr ''faq''), (''product_name'', name), (''faq_items'', PList items),
        (''total_questions'', PNum (of_nat (length items))),
        (''categories'', PList (remdups (map item_category items)))] ''faq_items'' PNone
       = PList items"
    by (simp add: dict_get_def)
  moreover have "dict_get
       [(''page_type'', PStr ''faq''), (''product_name'', name), (''faq_items'', PList items),
        (''total_questions'', PNum (of_nat (length items))),
        (''categories'', PList (remdups (map item_category items)))] ''total_questions'' PNone
       = PNum (of_nat (length items))"
    by (simp add: dict_get_def)
  ultimately show ?thesis using page qs each by blast
qed

lemma sample_faq_page_value:
  "FAQTemplate_apply
     [(''questions'', PList sample_questions),
      (''product_data'', PDict [(''product_name'', PStr ''GlowBoost'')])] []
   = Inr sample_faq_page"
  by code_simp

text \<open>
  Seven questions, the first with a category of its own and the others without: the page
  has five entries.
\<close>

theorem faq_page_amended_witness:
  "FAQTemplate_apply
     [(''questions'', PList sample_questions),
      (''product_data'', PDict [(''product_name'', PStr ''GlowBoost'')])] []
     = Inr sample_faq_page
   \<and> (\<exists>kvs items. sample_faq_page = PDict kvs
        \<and> dict_get kvs ''faq_items'' PNone = PList items
        \<and> length items \<le> 5
        \<and> dict_get kvs ''total_questions'' PNone = PNum (of_nat (length items))
        \<and> (\<forall>item \<in> set items. truthy (item_category item)))"
  using faq_page_amended [OF sample_faq_page_value] sample_faq_page_value by blast

text \<open>
  Claim C10 as the specification words it has every category in the fixed set. The first
  entry of the page above keeps the category \<open>General\<close> its question came with.
\<close>

theorem faq_page_counterexample:
  "FAQTemplate_apply
     [(''questions'', PList sample_questions),
      (''product_data'', PDict [(''product_name'', PStr ''GlowBoost'')])] []
     = Inr sample_faq_page
   \<and> item_category (PDict [(''question'', PStr ''What is it?''), (''answer'', PStr ''A serum.''),
                           (''category'', PStr ''General'')]) = PStr ''General''
   \<and> ''General'' \<notin> set fixed_categories"
  by code_simp

section \<open>Properties of the extraction\<close>



















section \<open>Properties of the stages and of a run\<close>

lemma data_parser_keys:
  "DataParserAgent_process b s = Inr u \<Longrightarrow>
     fst ` set u \<subseteq> insert ''errors'' (set (written_keys ''data_parser''))
     \<and> (\<forall>(k, v) \<in> set u. slot_ok k v)"
  by (auto simp add: DataParserAgent_process_def Let_def written_keys_def slot_ok_def
      completion_flags_def split: if_splits sum.splits)

lemma content_blocks_keys:
  "ContentBlocksAgent_process w s = Inr u \<Longrightarrow>
     fst ` set u \<subseteq> insert ''errors'' (set (written_keys ''content_blocks''))
     \<and> (\<forall>(k, v) \<in> set u. slot_ok k v)"
  by (auto simp add: ContentBlocksAgent_process_def Let_def written_keys_def slot_ok_def
      completion_flags_def split: if_splits sum.splits)

lemma question_update_keys:
  "question_update w pd = Inr u \<Longrightarrow>
     fst ` set u \<subseteq> insert ''errors'' (set (written_keys ''question_generator''))
     \<and> (\<forall>(k, v) \<in> set u. slot_ok k v)"
  by (auto simp add: question_update_def Let_def written_keys_def slot_ok_def
      completion_flags_def split: if_splits sum.splits)

lemma question_generator_keys:
  "QuestionGeneratorAgent_process w s = Inr u \<Longrightarrow>
     fst ` set u \<subseteq> insert ''errors'' (set (written_keys ''question_generator''))
     \<and> (\<forall>(k, v) \<in> set u. slot_ok k v)"
proof (cases "question_update w (dict_get s ''parsed_product'' (PDict []))")
  case (Inl e)
  assume "QuestionGeneratorAgent_process w s = Inr u"
  with Inl show ?thesis
    by (auto simp add: QuestionGeneratorAgent_process_def Let_def written_keys_def slot_ok_def
        completion_flags_def split: if_splits)
next
  case (Inr u')
  assume a: "QuestionGeneratorAgent_process w s = Inr u"
  show ?thesis
  proof (cases "truthy (dict_get s ''parsed_product'' (PDict []))")
    case True
    with a Inr have "u = u'" by (simp add: QuestionGeneratorAgent_process_def Let_def)
    with question_update_keys [OF Inr] show ?thesis by simp
  next
    case False
    with a show ?thesis
      by (auto simp add: QuestionGeneratorAgent_process_def Let_def written_keys_def slot_ok_def
          completion_flags_def)
  qed
qed

lemma faq_generator_keys:
  "FAQGeneratorAgent_process w s = Inr u \<Longrightarrow>
     fst ` set u \<subseteq> insert ''errors'' (set (written_keys ''faq_generator''))
     \<and> (\<forall>(k, v) \<in> set u. slot_ok k v)"
  by (auto simp add: FAQGeneratorAgent_process_def Let_def written_keys_def slot_ok_def
      completion_flags_def split: if_splits sum.splits)

lemma product_page_generator_keys:
  "ProductPageGeneratorAgent_process w s = Inr u \<Longrightarrow>
     fst ` set u \<subseteq> insert ''errors'' (set (written_keys ''product_page_generator''))
     \<and> (\<forall>(k, v) \<in> set u. slot_ok k v)"
  by (auto simp add: ProductPageGeneratorAgent_process_def Let_def written_keys_def slot_ok_def
      completion_flags_def split: if_splits sum.splits)

lemma comparison_generator_keys:
  "ComparisonGeneratorAgent_process b s = Inr u \<Longrightarrow>
     fst ` set u \<subseteq> insert ''errors'' (set (written_keys ''comparison_generator''))
     \<and> (\<forall>(k, v) \<in> set u. slot_ok k v)"
  by (auto simp add: ComparisonGeneratorAgent_process_def Let_def written_keys_def slot_ok_def
      completion_flags_def split: if_splits sum.splits option.splits)

lemma format_and_save_keys:
  "format_and_save w f p c = Inr r \<Longrightarrow>
     \<exists>a b d. r = [(''files_created'', a), (''output_directory'', b), (''all_pages_generated'', PBool d)]"
  by (auto simp add: format_and_save_def split: sum.splits)

lemma json_output_shapes:
  assumes "JSONOutputAgent_process w s = Inr u"
  shows "(\<exists>a b d. u = [(''files_created'', a), (''output_directory'', b),
                      (''all_pages_generated'', PBool d), (''json_output_complete'', PBool True)])
     \<or> (\<exists>a b msg. u = [(''files_created'', a), (''output_directory'', b),
                        (''errors'', PList [PStr msg]), (''json_output_complete'', PBool False)])
     \<or> (\<exists>msg. u = [(''errors'', PList [PStr msg])])"
proof -
  let ?f = "dict_get s ''faq_page'' PNone"
  let ?p = "dict_get s ''product_page'' PNone"
  let ?c = "dict_get s ''comparison_page'' PNone"
  let ?msg = "''Missing pages for JSON output: ''
      @ join_comma ((if \<not> truthy ?f then [''FAQ page''] else [])
          @ (if \<not> truthy ?p then [''Product page''] else [])
          @ (if \<not> truthy ?c then [''Comparison page''] else []))"
  consider (all) "truthy ?f" "truthy ?p" "truthy ?c"
    | (faq) "\<not> truthy ?f" "truthy ?p" "truthy ?c"
    | (product) "\<not> truthy ?p"
    | (comparison) "\<not> truthy ?c"
    by blast
  then show ?thesis
  proof cases
    case all
    with assms obtain r where r: "format_and_save w ?f ?p ?c = Inr r"
      and u: "u = r @ [(''json_output_complete'', PBool True)]"
      by (auto simp add: JSONOutputAgent_process_def Let_def split: sum.splits)
    from format_and_save_keys [OF r] u show ?thesis by auto
  next
    case faq
    with assms have "u = [(''files_created'', PDict
           [(''product_page'', PStr (path_of w ''product_page.json'')),
            (''comparison_page'', PStr (path_of w ''comparison_page.json''))]),
         (''output_directory'', PStr (output_dir w)),
         (''errors'', PList [PStr ?msg]),
         (''json_output_complete'', PBool False)]"
      by (auto simp add: JSONOutputAgent_process_def Let_def split: option.splits)
    then show ?thesis by blast
  next
    case product
    with assms have "u = [(''errors'', PList [PStr ?msg])]"
      by (simp add: JSONOutputAgent_process_def Let_def)
    then show ?thesis by blast
  next
    case comparison
    with assms have "u = [(''errors'', PList [PStr ?msg])]"
      by (simp add: JSONOutputAgent_process_def Let_def)
    then show ?thesis by blast
  qed
qed

lemma json_output_keys:
  assumes "JSONOutputAgent_process w s = Inr u"
  shows "fst ` set u \<subseteq> insert ''errors'' (set (written_keys ''json_output''))
     \<and> (\<forall>(k, v) \<in> set u. slot_ok k v)"
proof -
  have k: "written_keys ''json_output''
      = [''files_created'', ''output_directory'', ''all_pages_generated'', ''json_output_complete'']"
    by (simp add: written_keys_def)
  from json_output_shapes [OF assms] show ?thesis
    unfolding k by (auto simp add: slot_ok_def completion_flags_def)
qed

lemma node_process_keys:
  assumes "node_process w n s = Inr u"
  shows "fst ` set u \<subseteq> insert ''errors'' (set (written_keys n))
     \<and> (\<forall>(k, v) \<in> set u. slot_ok k v)"
proof (cases "n = ''data_parser''")
  case True
  with assms show ?thesis using data_parser_keys by (simp add: node_process_def)
next
  case n1: False
  show ?thesis
  proof (cases "n = ''content_blocks''")
    case True
    with assms show ?thesis using content_blocks_keys by (simp add: node_process_def)
  next
    case n2: False
    show ?thesis
    proof (cases "n = ''question_generator''")
      case True
      with assms show ?thesis using question_generator_keys by (simp add: node_process_def)
    next
      case n3: False
      show ?thesis
      proof (cases "n = ''faq_generator''")
        case True
        with assms show ?thesis using faq_generator_keys by (simp add: node_process_def)
      next
        case n4: False
        show ?thesis
        proof (cases "n = ''product_page_generator''")
          case True
          with assms show ?thesis
            using product_page_generator_keys by (simp add: node_process_def)
        next
          case n5: False
          show ?thesis
          proof (cases "n = ''comparison_generator''")
            case True
            with assms show ?thesis
              using comparison_generator_keys by (simp add: node_process_def)
          next
            case n6: False
            with assms n1 n2 n3 n4 n5 have "JSONOutputAgent_process w s = Inr u"
              by (simp add: node_process_def)
            from json_output_keys [OF this] n1 n2 n3 n4 n5 n6 show ?thesis
              by (simp add: written_keys_def)
          qed
        qed
      qed
    qed
  qed
qed



lemma map_of_dict_set: "map_of (dict_set s k v) = (map_of s)(k \<mapsto> v)"
  by (induction s) auto

lemma dict_get_dict_set:
  "dict_get (dict_set s k v) k' d = (if k' = k then v else dict_get s k' d)"
  by (simp add: dict_get_def map_of_dict_set)










section \<open>Page types and the result of a run\<close>









section \<open>Writers of the state slots\<close>

lemma written_keys_disjoint_all:
  "\<forall>n1 \<in> set workflow_nodes. \<forall>n2 \<in> set workflow_nodes.
     n1 \<noteq> n2 \<longrightarrow> (\<forall>k \<in> set (written_keys n1). k \<notin> set (written_keys n2))"
  by code_simp

lemma no_input_errors:
  "node_process w ''data_parser'' [] = Inr [(''errors'', PList [PStr ''No product data provided''])]"
  "node_process w ''content_blocks'' []
     = Inr [(''errors'', PList [PStr ''No product data available for content block generation''])]"
  "node_process w ''question_generator'' []
     = Inr [(''errors'', PList [PStr ''No product data available for question generation''])]"
  "node_process w ''faq_generator'' []
     = Inr [(''errors'', PList [PStr
         ''Missing product data for FAQ generation. Data parser may have failed.''])]"
  "node_process w ''product_page_generator'' []
     = Inr [(''errors'', PList [PStr
         ''Missing product data or content blocks for product page generation''])]"
  "node_process w ''comparison_generator'' []
     = Inr [(''errors'', PList [PStr ''Missing product data for comparison generation''])]"
  "node_process w ''json_output'' []
     = Inr [(''errors'', PList [PStr
         ''Missing pages for JSON output: FAQ page, Product page, Comparison page''])]"
  by code_simp+

lemma no_input_error:
  assumes "n \<in> set workflow_nodes"
  shows "\<exists>msg. node_process w n [] = Inr [(''errors'', PList [PStr msg])]"
proof -
  from assms have "n = ''data_parser'' \<or> n = ''content_blocks'' \<or> n = ''question_generator''
      \<or> n = ''faq_generator'' \<or> n = ''product_page_generator''
      \<or> n = ''comparison_generator'' \<or> n = ''json_output''"
    by (simp add: workflow_nodes_def)
  then show ?thesis
    by (elim disjE) (simp_all add: no_input_errors)
qed

text \<open>
  Claim C5, as the code has it. Two different stages never write the same key, except the
  key \<open>errors\<close>; and every stage writes \<open>errors\<close>: on a state without input each of the
  seven returns a dictionary with that key alone. The construction of the graph consists
  of the node and edge lists above and compares no keys.
\<close>

theorem single_writer_amended:
  "(n1 \<in> set workflow_nodes \<and> n2 \<in> set workflow_nodes \<and> n1 \<noteq> n2
      \<and> node_process w n1 s1 = Inr u1 \<and> node_process w n2 s2 = Inr u2
      \<and> k \<in> fst ` set u1 \<and> k \<in> fst ` set u2
    \<longrightarrow> k = ''errors'')
   \<and> (n \<in> set workflow_nodes \<longrightarrow>
        (\<exists>msg. node_process w n [] = Inr [(''errors'', PList [PStr msg])]))"
proof (intro conjI impI)
  assume h: "n1 \<in> set workflow_nodes \<and> n2 \<in> set workflow_nodes \<and> n1 \<noteq> n2
      \<and> node_process w n1 s1 = Inr u1 \<and> node_process w n2 s2 = Inr u2
      \<and> k \<in> fst ` set u1 \<and> k \<in> fst ` set u2"
  then have 1: "k \<in> insert ''errors'' (set (written_keys n1))"
    using node_process_keys [of w n1 s1 u1] by blast
  from h have 2: "k \<in> insert ''errors'' (set (written_keys n2))"
    using node_process_keys [of w n2 s2 u2] by blast
  show "k = ''errors''"
  proof (rule ccontr)
    assume "k \<noteq> ''errors''"
    with 1 2 have "k \<in> set (written_keys n1)" "k \<in> set (written_keys n2)" by auto
    with h written_keys_disjoint_all show False by blast
  qed
next
  assume "n \<in> set workflow_nodes"
  then show "\<exists>msg. node_process w n [] = Inr [(''errors'', PList [PStr msg])]"
    by (rule no_input_error)
qed

text \<open>
  On the sample run, after the first step, the content blocks stage and the question
  stage write disjoint keys.
\<close>

theorem single_writer_amended_witness:
  "node_process good_world ''content_blocks'' [(''parsed_product'', PDict sample_product)]
     = Inr [(''content_blocks'', PDict [(''benefits'', PDict [])]),
            (''content_blocks_generated'', PBool True)]
   \<and> (\<exists>u. node_process good_world ''question_generator''
              [(''parsed_product'', PDict sample_product)] = Inr u
          \<and> ''content_blocks'' \<notin> fst ` set u
          \<and> ''content_blocks_generated'' \<notin> fst ` set u)
   \<and> (\<exists>msg. node_process good_world ''json_output'' [] = Inr [(''errors'', PList [PStr msg])])"
proof -
  let ?s = "[(''parsed_product'', PDict sample_product)]"
  have a: "node_process good_world ''content_blocks'' ?s
      = Inr [(''content_blocks'', PDict [(''benefits'', PDict [])]),
             (''content_blocks_generated'', PBool True)]"
    by code_simp
  have "result_slot ''questions_generated'' (node_process good_world ''question_generator'' ?s)
      = Inr (PBool True)"
    by code_simp
  then obtain u where b: "node_process good_world ''question_generator'' ?s = Inr u"
    by (auto simp add: result_slot_def split: sum.splits)
  have n: "''content_blocks'' \<in> set workflow_nodes" "''question_generator'' \<in> set workflow_nodes"
    "''json_output'' \<in> set workflow_nodes" "''content_blocks'' \<noteq> ''question_generator''"
    by (simp_all add: workflow_nodes_def)
  have k: "''content_blocks'' \<in> fst ` set [(''content_blocks'', PDict [(''benefits'', PDict [])]),
             (''content_blocks_generated'', PBool True)]"
    "''content_blocks_generated'' \<in> fst ` set [(''content_blocks'', PDict [(''benefits'', PDict [])]),
             (''content_blocks_generated'', PBool True)]"
    by simp_all
  let ?u1 = "[(''content_blocks'', PDict [(''benefits'', PDict [])]),
             (''content_blocks_generated'', PBool True)]"
  have 1: "''content_blocks'' \<notin> fst ` set u"
  proof
    assume m: "''content_blocks'' \<in> fst ` set u"
    have "''content_blocks'' = ''errors''"
      using single_writer_amended [of "''content_blocks''" "''question_generator''" good_world
          ?s ?u1 ?s u "''content_blocks''"] a b n k m
      by blast
    then show False by simp
  qed
  have 2: "''content_blocks_generated'' \<notin> fst ` set u"
  proof
    assume m: "''content_blocks_generated'' \<in> fst ` set u"
    have "''content_blocks_generated'' = ''errors''"
      using single_writer_amended [of "''content_blocks''" "''question_generator''" good_world
          ?s ?u1 ?s u "''content_blocks_generated''"] a b n k m
      by blast
    then show False by simp
  qed
  have 3: "\<exists>msg. node_process good_world ''json_output'' [] = Inr [(''errors'', PList [PStr msg])]"
    using single_writer_amended [of _ _ good_world _ _ _ _ _ "''json_output''"] n by blast
  show ?thesis using a b 1 2 3 by blast
qed

text \<open>
  Claim C5 as the specification words it gives every written key one writer. On a state
  without a parsed product the content blocks stage and the question stage, which run in
  the same step, both write the key \<open>errors\<close>.
\<close>

theorem single_writer_counterexample:
  "node_process good_world ''content_blocks'' (initial_state PNone)
     = Inr [(''errors'', PList [PStr ''No product data available for content block generation''])]
   \<and> node_process good_world ''question_generator'' (initial_state PNone)
     = Inr [(''errors'', PList [PStr ''No product data available for question generation''])]
   \<and> ''content_blocks'' \<noteq> ''question_generator''"
  by code_simp

section \<open>Failures of a stage\<close>

lemma comparison_process_raises:
  assumes "truthy (dict_get s ''parsed_product'' (PDict []))"
    and "snd (generate_fictional_product_b b (dict_get s ''parsed_product'' (PDict []))) = Inl e"
  shows "ComparisonGeneratorAgent_process b s = Inl e"
  using assms by (simp add: ComparisonGeneratorAgent_process_def Let_def)

lemma faq_process_catches:
  assumes "truthy (dict_get s ''parsed_product'' PNone)"
    and "dict_get s ''questions'' PNone = PList (q # qs)"
    and "generate_faq_page w (dict_get s ''parsed_product'' PNone) (PList (q # qs)) = Inl e"
  shows "FAQGeneratorAgent_process w s
     = Inr [(''errors'', PList [PStr (''FAQ generation error: '' @ error_text w e)]),
            (''faq_page'', PNone), (''faq_generated'', PBool False)]"
  using assms by (simp add: FAQGeneratorAgent_process_def Let_def)

text \<open>
  Claim C1 on a concrete run. The backend of the comparison stage answers with a product
  that has no price. The stage raises \<open>ValueError\<close>, nothing catches it, and the run ends
  with that exception instead of a result; with a complete answer the same run returns a
  state without errors.
\<close>

theorem comparison_failure_escapes:
  "ComparisonGeneratorAgent_process no_price_backend [(''parsed_product'', PDict sample_product)]
     = Inl (ValueError ''Missing required field in Product B: price'')
   \<and> run no_price_world (PDict sample_product)
     = Inl (ValueError ''Missing required field in Product B: price'')
   \<and> result_slot ''errors'' (run good_world (PDict sample_product)) = Inr (PList [])"
  by code_simp

section \<open>The error list\<close>










end
